theory Spec2Isabelle
  imports Complex_Main
begin

section \<open>Errors and results\<close>

text \<open>
  The network of \<^verbatim>\<open>hi_diff/archs/Transformer_arch.py\<close> is a composition of tensor
  operations. Each operation either returns a tensor or raises; a raised exception is the
  left injection of the result type, and it ends the forward pass.

  \<^item> \<open>ShapeError\<close>: the exception a tensor operation raises on operands whose shapes it
    does not accept (PyTorch's RuntimeError, einops' EinopsError, Python's ValueError
    on unpacking \<^verbatim>\<open>x.shape\<close>).
  \<^item> \<open>AttributeError\<close>: a module attribute that the constructor did not create is read.
  \<^item> \<open>NoneTensorError\<close>: a tensor operation is applied to \<^verbatim>\<open>None\<close>.
\<close>

datatype error = ShapeError | AttributeError | NoneTensorError

definition and_then :: "error + 'a \<Rightarrow> ('a \<Rightarrow> error + 'b) \<Rightarrow> error + 'b" where
  "and_then r f = (case r of Inl e \<Rightarrow> Inl e | Inr v \<Rightarrow> f v)"

text \<open>Calling a module on an argument that may be \<^verbatim>\<open>None\<close>.\<close>

definition call_on :: "'t option \<Rightarrow> ('t \<Rightarrow> error + 'a) \<Rightarrow> error + 'a" where
  "call_on x f = (case x of None \<Rightarrow> Inl NoneTensorError | Some t \<Rightarrow> f t)"

section \<open>Tensor shapes and the shape contracts of the PyTorch layers\<close>

text \<open>
  A shape is the list of dimension sizes, outermost first. The functions of this section
  give, for each PyTorch or einops operation the source calls, the shape of the result
  or the error raised.
\<close>

type_synonym shape = "nat list"

text \<open>Broadcasting of two shapes, aligned at the last axis.\<close>

fun broadcast_rev :: "nat list \<Rightarrow> nat list \<Rightarrow> error + nat list" where
  "broadcast_rev [] ys = Inr ys"
| "broadcast_rev (x # xs) [] = Inr (x # xs)"
| "broadcast_rev (x # xs) (y # ys) =
     (if x = y \<or> y = 1 then and_then (broadcast_rev xs ys) (\<lambda>r. Inr (x # r))
      else if x = 1 then and_then (broadcast_rev xs ys) (\<lambda>r. Inr (y # r))
      else Inl ShapeError)"

definition broadcast :: "shape \<Rightarrow> shape \<Rightarrow> error + shape" where
  "broadcast a b = and_then (broadcast_rev (rev a) (rev b)) (\<lambda>r. Inr (rev r))"

text \<open>
  \<^verbatim>\<open>nn.Conv2d(in, out, kernel_size, stride, padding, groups, bias)\<close>. The constructor
  rejects \<open>groups = 0\<close> and channel counts that are not multiples of \<open>groups\<close>; the
  model reports a layer so constructed at its first call.
\<close>

record Conv2d =
  conv_in :: nat
  conv_out :: nat
  conv_kernel :: nat
  conv_stride :: nat
  conv_padding :: nat
  conv_groups :: nat
  conv_bias :: bool

text \<open>\<^verbatim>\<open>nn.Conv2d(in, out, kernel_size, stride, padding, groups=groups, bias=bias)\<close>\<close>

definition Conv2d_init :: "nat \<Rightarrow> nat \<Rightarrow> nat \<Rightarrow> nat \<Rightarrow> nat \<Rightarrow> nat \<Rightarrow> bool \<Rightarrow> Conv2d" where
  "Conv2d_init i out k s p g b =
     \<lparr>conv_in = i, conv_out = out, conv_kernel = k, conv_stride = s, conv_padding = p,
      conv_groups = g, conv_bias = b\<rparr>"

definition conv_size :: "Conv2d \<Rightarrow> nat \<Rightarrow> nat" where
  "conv_size c n = (n + 2 * conv_padding c - conv_kernel c) div conv_stride c + 1"

definition conv_constructed :: "Conv2d \<Rightarrow> bool" where
  "conv_constructed c \<longleftrightarrow>
     0 < conv_groups c \<and> conv_in c mod conv_groups c = 0 \<and> conv_out c mod conv_groups c = 0"

definition conv_accepts :: "Conv2d \<Rightarrow> nat \<Rightarrow> nat \<Rightarrow> nat \<Rightarrow> bool" where
  "conv_accepts c ch h w \<longleftrightarrow>
     conv_constructed c \<and> ch = conv_in c \<and> conv_kernel c \<le> h + 2 * conv_padding c
       \<and> conv_kernel c \<le> w + 2 * conv_padding c"

definition Conv2d_forward :: "Conv2d \<Rightarrow> shape \<Rightarrow> error + shape" where
  "Conv2d_forward c x =
     (case x of
        [b, ch, h, w] \<Rightarrow>
          if conv_accepts c ch h w
          then Inr [b, conv_out c, conv_size c h, conv_size c w]
          else Inl ShapeError
      | [ch, h, w] \<Rightarrow>
          if conv_accepts c ch h w
          then Inr [conv_out c, conv_size c h, conv_size c w]
          else Inl ShapeError
      | _ \<Rightarrow> Inl ShapeError)"

text \<open>\<^verbatim>\<open>nn.Linear(in_features, out_features)\<close> acts on the last axis.\<close>

record Linear =
  in_features :: nat
  out_features :: nat

definition Linear_forward :: "Linear \<Rightarrow> shape \<Rightarrow> error + shape" where
  "Linear_forward l x =
     (if x \<noteq> [] \<and> last x = in_features l then Inr (butlast x @ [out_features l])
      else Inl ShapeError)"

text \<open>
  \<^verbatim>\<open>nn.PixelUnshuffle(2)\<close> and \<^verbatim>\<open>nn.PixelShuffle(2)\<close> act on the last three axes
  \<open>(C, H, W)\<close> of a tensor with at least three axes.
\<close>

definition PixelUnshuffle :: "nat \<Rightarrow> shape \<Rightarrow> error + shape" where
  "PixelUnshuffle r x =
     (case rev x of
        w # h # c # pre \<Rightarrow>
          if h mod r = 0 \<and> w mod r = 0 then Inr (rev pre @ [c * (r * r), h div r, w div r])
          else Inl ShapeError
      | _ \<Rightarrow> Inl ShapeError)"

definition PixelShuffle :: "nat \<Rightarrow> shape \<Rightarrow> error + shape" where
  "PixelShuffle r x =
     (case rev x of
        w # h # c # pre \<Rightarrow>
          if c mod (r * r) = 0 then Inr (rev pre @ [c div (r * r), h * r, w * r])
          else Inl ShapeError
      | _ \<Rightarrow> Inl ShapeError)"

text \<open>
  \<^verbatim>\<open>nn.Upsample(size=(h, w), mode="bilinear")\<close> resizes the two spatial axes of a
  non-empty four-axis tensor.
\<close>

definition Upsample_bilinear :: "nat \<times> nat \<Rightarrow> shape \<Rightarrow> error + shape" where
  "Upsample_bilinear sz x =
     (case x of
        [b, c, h, w] \<Rightarrow>
          if 0 < c \<and> 0 < h \<and> 0 < w then Inr [b, c, fst sz, snd sz] else Inl ShapeError
      | _ \<Rightarrow> Inl ShapeError)"

text \<open>Tensor methods: \<^verbatim>\<open>permute(0, 2, 1)\<close>, \<^verbatim>\<open>view(x.size(0), c, h, w)\<close>,
  \<^verbatim>\<open>flatten(1)\<close>, \<^verbatim>\<open>unsqueeze(-1)\<close>, \<^verbatim>\<open>transpose(-2, -1)\<close>.\<close>

definition permute_0_2_1 :: "shape \<Rightarrow> error + shape" where
  "permute_0_2_1 x = (case x of [a, b, c] \<Rightarrow> Inr [a, c, b] | _ \<Rightarrow> Inl ShapeError)"

definition view_size0 :: "nat \<Rightarrow> nat \<Rightarrow> nat \<Rightarrow> shape \<Rightarrow> error + shape" where
  "view_size0 c h w x =
     (case x of
        [] \<Rightarrow> Inl ShapeError
      | b # rest \<Rightarrow> if prod_list x = b * c * h * w then Inr [b, c, h, w] else Inl ShapeError)"

definition flatten_1 :: "shape \<Rightarrow> error + shape" where
  "flatten_1 x =
     (case x of
        b # d # rest \<Rightarrow> Inr [b, prod_list (d # rest)]
      | _ \<Rightarrow> Inl ShapeError)"

definition unsqueeze_last :: "shape \<Rightarrow> shape" where
  "unsqueeze_last x = x @ [1]"

definition transpose_last2 :: "shape \<Rightarrow> error + shape" where
  "transpose_last2 x =
     (case rev x of n # m # pre \<Rightarrow> Inr (rev pre @ [n, m]) | _ \<Rightarrow> Inl ShapeError)"

text \<open>
  \<^verbatim>\<open>a @ b\<close> (\<^verbatim>\<open>torch.matmul\<close>) for operands with at least two axes, which is what
  the rearrangements of this file produce: the leading axes broadcast and the inner
  sizes must agree.
\<close>

definition matmul :: "shape \<Rightarrow> shape \<Rightarrow> error + shape" where
  "matmul a b =
     (case (rev a, rev b) of
        (m # n # pa, p # m' # pb) \<Rightarrow>
          if m = m' then and_then (broadcast_rev pa pb) (\<lambda>r. Inr (rev r @ [n, p]))
          else Inl ShapeError
      | _ \<Rightarrow> Inl ShapeError)"

text \<open>
  \<^verbatim>\<open>x.chunk(n, dim)\<close> splits axis \<open>dim\<close> of size \<open>C\<close> into pieces of size
  \<open>\<lceil>C / n\<rceil>\<close>, the last one smaller when \<open>C\<close> is not a multiple; an axis of size 0
  gives \<open>n\<close> empty pieces. Unpacking the result into two or three names raises unless
  there are exactly that many pieces.
\<close>

definition chunk_sizes :: "nat \<Rightarrow> nat \<Rightarrow> nat list" where
  "chunk_sizes C n =
     (let s = (C + n - 1) div n in
      if s = 0 then replicate n 0
      else replicate (C div s) s @ (if C mod s = 0 then [] else [C mod s]))"

definition chunk :: "nat \<Rightarrow> nat \<Rightarrow> shape \<Rightarrow> error + shape list" where
  "chunk n d x =
     (if d < length x \<and> 0 < n then Inr (map (\<lambda>s. x[d := s]) (chunk_sizes (x ! d) n))
      else Inl ShapeError)"

definition unpack2 :: "'a list \<Rightarrow> error + 'a \<times> 'a" where
  "unpack2 xs = (case xs of [a, b] \<Rightarrow> Inr (a, b) | _ \<Rightarrow> Inl ShapeError)"

definition unpack3 :: "'a list \<Rightarrow> error + 'a \<times> 'a \<times> 'a" where
  "unpack3 xs = (case xs of [a, b, c] \<Rightarrow> Inr (a, b, c) | _ \<Rightarrow> Inl ShapeError)"

text \<open>
  Reductions over the last axis with \<^verbatim>\<open>keepdim=True\<close> (\<^verbatim>\<open>mean\<close>, \<^verbatim>\<open>var\<close>).
\<close>

definition reduce_last_keepdim :: "shape \<Rightarrow> shape" where
  "reduce_last_keepdim x = (if x = [] then [] else butlast x @ [1])"

subsection \<open>einops rearrangements\<close>

text \<open>\<^verbatim>\<open>to_3d\<close>: \<^verbatim>\<open>'b c h w -> b (h w) c'\<close>.\<close>

definition to_3d :: "shape \<Rightarrow> error + shape" where
  "to_3d x = (case x of [b, c, h, w] \<Rightarrow> Inr [b, h * w, c] | _ \<Rightarrow> Inl ShapeError)"

text \<open>\<^verbatim>\<open>to_4d\<close>: \<^verbatim>\<open>'b (h w) c -> b c h w'\<close> with \<open>h\<close> and \<open>w\<close> given.\<close>

definition to_4d :: "shape \<Rightarrow> nat \<Rightarrow> nat \<Rightarrow> error + shape" where
  "to_4d x h w =
     (case x of
        [b, n, c] \<Rightarrow> if n = h * w then Inr [b, c, h, w] else Inl ShapeError
      | _ \<Rightarrow> Inl ShapeError)"

text \<open>\<^verbatim>\<open>Rearrange('b n c -> b c n')\<close> and its inverse \<^verbatim>\<open>Rearrange('b c n -> b n c')\<close>.\<close>

definition Rearrange_swap :: "shape \<Rightarrow> error + shape" where
  "Rearrange_swap x = (case x of [b, n, c] \<Rightarrow> Inr [b, c, n] | _ \<Rightarrow> Inl ShapeError)"

text \<open>\<^verbatim>\<open>'b (head c) h w -> b head c (h w)'\<close> with \<open>head\<close> given.\<close>

definition split_heads_4d :: "nat \<Rightarrow> shape \<Rightarrow> error + shape" where
  "split_heads_4d head x =
     (case x of
        [b, ch, h, w] \<Rightarrow>
          if 0 < head \<and> ch mod head = 0 then Inr [b, head, ch div head, h * w]
          else Inl ShapeError
      | _ \<Rightarrow> Inl ShapeError)"

text \<open>\<^verbatim>\<open>'b head c (h w) -> b (head c) h w'\<close> with \<open>head\<close>, \<open>h\<close> and \<open>w\<close> given.\<close>

definition merge_heads_4d :: "nat \<Rightarrow> nat \<Rightarrow> nat \<Rightarrow> shape \<Rightarrow> error + shape" where
  "merge_heads_4d head h w x =
     (case x of
        [b, nh, c, n] \<Rightarrow>
          if nh = head \<and> n = h * w then Inr [b, nh * c, h, w] else Inl ShapeError
      | _ \<Rightarrow> Inl ShapeError)"

text \<open>\<^verbatim>\<open>'b n (head c) -> b head n c'\<close> with \<open>head\<close> given.\<close>

definition split_heads_3d :: "nat \<Rightarrow> shape \<Rightarrow> error + shape" where
  "split_heads_3d head x =
     (case x of
        [b, n, ch] \<Rightarrow>
          if 0 < head \<and> ch mod head = 0 then Inr [b, head, n, ch div head]
          else Inl ShapeError
      | _ \<Rightarrow> Inl ShapeError)"

text \<open>\<^verbatim>\<open>'b head n c -> b n (head c)'\<close> with \<open>head\<close> given.\<close>

definition merge_heads_3d :: "nat \<Rightarrow> shape \<Rightarrow> error + shape" where
  "merge_heads_3d head x =
     (case x of
        [b, nh, n, c] \<Rightarrow> if nh = head then Inr [b, n, nh * c] else Inl ShapeError
      | _ \<Rightarrow> Inl ShapeError)"

section \<open>Resizing modules\<close>

text \<open>
  \<^verbatim>\<open>Downsample(n_feat)\<close> is \<^verbatim>\<open>Conv2d(n_feat, n_feat//2, 3, stride=1, padding=1,
  bias=False)\<close> followed by \<^verbatim>\<open>PixelUnshuffle(2)\<close>; \<^verbatim>\<open>Upsample(n_feat)\<close> is
  \<^verbatim>\<open>Conv2d(n_feat, n_feat*2, 3, stride=1, padding=1, bias=False)\<close> followed by
  \<^verbatim>\<open>PixelShuffle(2)\<close>.
\<close>

record Downsample =
  down_body :: Conv2d

record Upsample =
  up_body :: Conv2d

definition Downsample_init :: "nat \<Rightarrow> Downsample" where
  "Downsample_init n_feat =
     \<lparr>down_body = Conv2d_init n_feat (n_feat div 2) 3 1 1 1 False\<rparr>"

definition Downsample_forward :: "Downsample \<Rightarrow> shape \<Rightarrow> error + shape" where
  "Downsample_forward m x = and_then (Conv2d_forward (down_body m) x) (PixelUnshuffle 2)"

definition Upsample_init :: "nat \<Rightarrow> Upsample" where
  "Upsample_init n_feat =
     \<lparr>up_body = Conv2d_init n_feat (n_feat * 2) 3 1 1 1 False\<rparr>"

definition Upsample_forward :: "Upsample \<Rightarrow> shape \<Rightarrow> error + shape" where
  "Upsample_forward m x = and_then (Conv2d_forward (up_body m) x) (PixelShuffle 2)"

section \<open>Layer normalisation (shapes)\<close>

text \<open>
  \<^verbatim>\<open>BiasFree_LayerNorm\<close> holds a weight of shape \<open>(n)\<close>, \<^verbatim>\<open>WithBias_LayerNorm\<close> a weight
  and a bias of shape \<open>(n)\<close>. Their forward passes reduce over the last axis with
  \<^verbatim>\<open>keepdim=True\<close> and combine the operands elementwise, so every step broadcasts.
\<close>

datatype LayerNorm_body = BiasFree_LayerNorm nat | WithBias_LayerNorm nat

definition BiasFree_LayerNorm_forward :: "nat \<Rightarrow> shape \<Rightarrow> error + shape" where
  "BiasFree_LayerNorm_forward n x =
     (let sigma = reduce_last_keepdim x in
      and_then (broadcast x sigma) (\<lambda>y.
      broadcast y [n]))"

definition WithBias_LayerNorm_forward :: "nat \<Rightarrow> shape \<Rightarrow> error + shape" where
  "WithBias_LayerNorm_forward n x =
     (let mu = reduce_last_keepdim x;
          sigma = reduce_last_keepdim x in
      and_then (broadcast x mu) (\<lambda>d.
      and_then (broadcast d sigma) (\<lambda>y.
      and_then (broadcast y [n]) (\<lambda>z.
      broadcast z [n]))))"

fun body_forward :: "LayerNorm_body \<Rightarrow> shape \<Rightarrow> error + shape" where
  "body_forward (BiasFree_LayerNorm n) x = BiasFree_LayerNorm_forward n x"
| "body_forward (WithBias_LayerNorm n) x = WithBias_LayerNorm_forward n x"

text \<open>\<^verbatim>\<open>LayerNorm(dim, LayerNorm_type)\<close> and \<^verbatim>\<open>LayerNorm_Without_Shape(dim,
  LayerNorm_type)\<close> choose the body alike.\<close>

definition LayerNorm_init :: "nat \<Rightarrow> string \<Rightarrow> LayerNorm_body" where
  "LayerNorm_init n LayerNorm_type =
     (if LayerNorm_type = ''BiasFree'' then BiasFree_LayerNorm n else WithBias_LayerNorm n)"

text \<open>\<^verbatim>\<open>h, w = x.shape[-2:]\<close> raises unless \<open>x\<close> has at least two axes.\<close>

definition shape_last2 :: "shape \<Rightarrow> error + nat \<times> nat" where
  "shape_last2 x = (case rev x of w # h # pre \<Rightarrow> Inr (h, w) | _ \<Rightarrow> Inl ShapeError)"

definition LayerNorm_forward :: "LayerNorm_body \<Rightarrow> shape \<Rightarrow> error + shape" where
  "LayerNorm_forward body x =
     and_then (shape_last2 x) (\<lambda>(h, w).
     and_then (to_3d x) (\<lambda>x3.
     and_then (body_forward body x3) (\<lambda>y.
     to_4d y h w)))"

definition LayerNorm_Without_Shape_forward :: "LayerNorm_body \<Rightarrow> shape \<Rightarrow> error + shape" where
  "LayerNorm_Without_Shape_forward body x =
     and_then (shape_last2 x) (\<lambda>(h, w).
     body_forward body x)"

section \<open>Gated-Dconv feed-forward network\<close>

text \<open>Python's \<^verbatim>\<open>int(x)\<close> on a float truncates towards zero.\<close>

definition py_int :: "real \<Rightarrow> int" where
  "py_int x = (if 0 \<le> x then \<lfloor>x\<rfloor> else \<lceil>x\<rceil>)"

text \<open>
  The FiLM projections \<open>ln1\<close> and \<open>ln2\<close> exist only when the module is constructed with
  \<open>group = 1\<close>; reading a missing one raises \<open>AttributeError\<close>.
\<close>

definition get_attr :: "'a option \<Rightarrow> error + 'a" where
  "get_attr a = (case a of None \<Rightarrow> Inl AttributeError | Some v \<Rightarrow> Inr v)"

text \<open>\<^verbatim>\<open>ln(prior).unsqueeze(-1).unsqueeze(-1)\<close> for a FiLM projection.\<close>

definition film_coeff :: "Linear option \<Rightarrow> shape \<Rightarrow> error + shape" where
  "film_coeff lin prior =
     and_then (get_attr lin) (\<lambda>l.
     and_then (Linear_forward l prior) (\<lambda>k.
     Inr (unsqueeze_last (unsqueeze_last k))))"

text \<open>The conditioning \<^verbatim>\<open>x = (x * k1) + k2\<close>, run when the prior is not \<^verbatim>\<open>None\<close>.\<close>

definition film :: "Linear option \<Rightarrow> Linear option \<Rightarrow> shape \<Rightarrow> shape option \<Rightarrow> error + shape" where
  "film ln1 ln2 x prior =
     (case prior of
        None \<Rightarrow> Inr x
      | Some p \<Rightarrow>
          and_then (film_coeff ln1 p) (\<lambda>k1.
          and_then (film_coeff ln2 p) (\<lambda>k2.
          and_then (broadcast x k1) (\<lambda>xk.
          broadcast xk k2))))"

record FeedForward =
  ffn_project_in :: Conv2d
  ffn_dwconv :: Conv2d
  ffn_project_out :: Conv2d
  ffn_ln1 :: "Linear option"
  ffn_ln2 :: "Linear option"

definition FeedForward_init :: "nat \<Rightarrow> real \<Rightarrow> bool \<Rightarrow> nat \<Rightarrow> int \<Rightarrow> FeedForward" where
  "FeedForward_init dm ffn_expansion_factor bias embed_dim grp =
     (let hidden_features = nat (py_int (real dm * ffn_expansion_factor)) in
      \<lparr>ffn_project_in = Conv2d_init dm (hidden_features * 2) 1 1 0 1 bias,
       ffn_dwconv = Conv2d_init (hidden_features * 2) (hidden_features * 2) 3 1 1
          (hidden_features * 2) bias,
       ffn_project_out = Conv2d_init hidden_features dm 1 1 0 1 bias,
       ffn_ln1 = (if grp = 1
                  then Some \<lparr>in_features = embed_dim * 4, out_features = dm\<rparr> else None),
       ffn_ln2 = (if grp = 1
                  then Some \<lparr>in_features = embed_dim * 4, out_features = dm\<rparr> else None)\<rparr>)"

definition FeedForward_forward :: "FeedForward \<Rightarrow> shape \<Rightarrow> shape option \<Rightarrow> error + shape" where
  "FeedForward_forward m x prior =
     and_then (film (ffn_ln1 m) (ffn_ln2 m) x prior) (\<lambda>x.
     and_then (Conv2d_forward (ffn_project_in m) x) (\<lambda>x.
     and_then (Conv2d_forward (ffn_dwconv m) x) (\<lambda>y.
     and_then (and_then (chunk 2 1 y) unpack2) (\<lambda>(x1, x2).
     and_then (broadcast x1 x2) (\<lambda>x.
     Conv2d_forward (ffn_project_out m) x)))))"

section \<open>Multi-Dconv head transposed self-attention\<close>

record Attention =
  attn_num_heads :: nat
  attn_qkv :: Conv2d
  attn_qkv_dwconv :: Conv2d
  attn_project_out :: Conv2d
  attn_ln1 :: "Linear option"
  attn_ln2 :: "Linear option"

definition Attention_init :: "nat \<Rightarrow> nat \<Rightarrow> bool \<Rightarrow> nat \<Rightarrow> int \<Rightarrow> Attention" where
  "Attention_init dm num_heads bias embed_dim grp =
     \<lparr>attn_num_heads = num_heads,
      attn_qkv = Conv2d_init dm (dm * 3) 1 1 0 1 bias,
      attn_qkv_dwconv = Conv2d_init (dm * 3) (dm * 3) 3 1 1 (dm * 3) bias,
      attn_project_out = Conv2d_init dm dm 1 1 0 1 bias,
      attn_ln1 = (if grp = 1
                  then Some \<lparr>in_features = embed_dim * 4, out_features = dm\<rparr> else None),
      attn_ln2 = (if grp = 1
                  then Some \<lparr>in_features = embed_dim * 4, out_features = dm\<rparr> else None)\<rparr>"

text \<open>\<^verbatim>\<open>b, c, h, w = x.shape\<close> raises unless \<open>x\<close> has four axes.\<close>

definition shape_bchw :: "shape \<Rightarrow> error + nat \<times> nat \<times> nat \<times> nat" where
  "shape_bchw x = (case x of [b, c, h, w] \<Rightarrow> Inr (b, c, h, w) | _ \<Rightarrow> Inl ShapeError)"

text \<open>
  The temperature is a parameter of shape \<open>(num_heads, 1, 1)\<close>; softmax and
  \<^verbatim>\<open>F.normalize\<close> keep the shape of their operand.
\<close>

definition Attention_forward :: "Attention \<Rightarrow> shape \<Rightarrow> shape option \<Rightarrow> error + shape" where
  "Attention_forward m x prior =
     and_then (shape_bchw x) (\<lambda>(b, c, h, w).
     and_then (film (attn_ln1 m) (attn_ln2 m) x prior) (\<lambda>x.
     and_then (and_then (Conv2d_forward (attn_qkv m) x) (Conv2d_forward (attn_qkv_dwconv m))) (\<lambda>qkv.
     and_then (and_then (chunk 3 1 qkv) unpack3) (\<lambda>(q, k, v).
     and_then (split_heads_4d (attn_num_heads m) q) (\<lambda>q.
     and_then (split_heads_4d (attn_num_heads m) k) (\<lambda>k.
     and_then (split_heads_4d (attn_num_heads m) v) (\<lambda>v.
     and_then (transpose_last2 k) (\<lambda>kt.
     and_then (matmul q kt) (\<lambda>qk.
     and_then (broadcast qk [attn_num_heads m, 1, 1]) (\<lambda>attn.
     and_then (matmul attn v) (\<lambda>out.
     and_then (merge_heads_4d (attn_num_heads m) h w out) (\<lambda>out.
     Conv2d_forward (attn_project_out m) out))))))))))))"

section \<open>Hierarchical Integration Module\<close>

record HIM =
  him_num_heads :: nat
  him_norm1 :: LayerNorm_body
  him_norm2 :: LayerNorm_body
  him_q :: Linear
  him_kv :: Linear
  him_proj :: Linear

definition HIM_init :: "nat \<Rightarrow> nat \<Rightarrow> bool \<Rightarrow> nat \<Rightarrow> string \<Rightarrow> HIM" where
  "HIM_init dm num_heads bias embed_dim LayerNorm_type =
     \<lparr>him_num_heads = num_heads,
      him_norm1 = LayerNorm_init dm LayerNorm_type,
      him_norm2 = LayerNorm_init (embed_dim * 4) LayerNorm_type,
      him_q = \<lparr>in_features = dm, out_features = dm\<rparr>,
      him_kv = \<lparr>in_features = embed_dim * 4, out_features = 2 * dm\<rparr>,
      him_proj = \<lparr>in_features = dm, out_features = dm\<rparr>\<rparr>"

definition HIM_forward :: "HIM \<Rightarrow> shape \<Rightarrow> shape \<Rightarrow> error + shape" where
  "HIM_forward m x prior =
     and_then (shape_bchw x) (\<lambda>(B, C, H, W).
     and_then (to_3d x) (\<lambda>x.
     and_then (LayerNorm_Without_Shape_forward (him_norm1 m) x) (\<lambda>x'.
     and_then (LayerNorm_Without_Shape_forward (him_norm2 m) prior) (\<lambda>prior.
     and_then (Linear_forward (him_q m) x') (\<lambda>q.
     and_then (Linear_forward (him_kv m) prior) (\<lambda>kv.
     and_then (and_then (chunk 2 (length kv - 1) kv) unpack2) (\<lambda>(k, v).
     and_then (split_heads_3d (him_num_heads m) q) (\<lambda>q.
     and_then (split_heads_3d (him_num_heads m) k) (\<lambda>k.
     and_then (split_heads_3d (him_num_heads m) v) (\<lambda>v.
     and_then (and_then (transpose_last2 k) (matmul q)) (\<lambda>attn.
     and_then (matmul attn v) (\<lambda>out.
     and_then (merge_heads_3d (him_num_heads m) out) (\<lambda>out.
     and_then (Linear_forward (him_proj m) out) (\<lambda>out.
     and_then (broadcast x out) (\<lambda>x.
     to_4d x H W)))))))))))))))"

section \<open>Transformer block\<close>

record TransformerBlock =
  blk_norm1 :: LayerNorm_body
  blk_attn :: Attention
  blk_norm2 :: LayerNorm_body
  blk_ffn :: FeedForward

definition TransformerBlock_init ::
    "nat \<Rightarrow> nat \<Rightarrow> real \<Rightarrow> bool \<Rightarrow> string \<Rightarrow> nat \<Rightarrow> int \<Rightarrow> TransformerBlock" where
  "TransformerBlock_init dm num_heads ffn_expansion_factor bias LayerNorm_type embed_dim grp =
     \<lparr>blk_norm1 = LayerNorm_init dm LayerNorm_type,
      blk_attn = Attention_init dm num_heads bias embed_dim grp,
      blk_norm2 = LayerNorm_init dm LayerNorm_type,
      blk_ffn = FeedForward_init dm ffn_expansion_factor bias embed_dim grp\<rparr>"

definition TransformerBlock_forward ::
    "TransformerBlock \<Rightarrow> shape \<Rightarrow> shape option \<Rightarrow> error + shape" where
  "TransformerBlock_forward m x prior =
     and_then (and_then (LayerNorm_forward (blk_norm1 m) x) (\<lambda>n. Attention_forward (blk_attn m) n prior)) (\<lambda>a.
     and_then (broadcast x a) (\<lambda>x.
     and_then (and_then (LayerNorm_forward (blk_norm2 m) x) (\<lambda>n. FeedForward_forward (blk_ffn m) n prior)) (\<lambda>f.
     broadcast x f)))"

section \<open>Overlapped image patch embedding\<close>

definition OverlapPatchEmbed_init :: "nat \<Rightarrow> nat \<Rightarrow> bool \<Rightarrow> Conv2d" where
  "OverlapPatchEmbed_init in_c embed_dim bias =
     Conv2d_init in_c embed_dim 3 1 1 1 bias"

definition OverlapPatchEmbed_forward :: "Conv2d \<Rightarrow> shape \<Rightarrow> error + shape" where
  "OverlapPatchEmbed_forward proj x = Conv2d_forward proj x"

section \<open>Tensor values\<close>

text \<open>
  For the claims about what the layers compute, a tensor is its shape together with
  its entries, a function of the index (one number per axis, outermost first, so that
  \<open>i ! k\<close> is the position along axis \<open>k\<close>); only the entries at the indices within the
  shape matter. Entries are real numbers and
  every operation is exact: the rounding of PyTorch's floating-point kernels is not
  part of this model. The shape of every result is computed by the shape contracts
  above, so a value-level operation raises exactly when its shape contract does.
\<close>

record tensor =
  dims :: shape
  entry :: "nat list \<Rightarrow> real"

definition valid_index :: "shape \<Rightarrow> nat list \<Rightarrow> bool" where
  "valid_index s i \<longleftrightarrow> list_all2 (<) i s"

definition with_dims :: "error + shape \<Rightarrow> (nat list \<Rightarrow> real) \<Rightarrow> error + tensor" where
  "with_dims r f = and_then r (\<lambda>s. Inr \<lparr>dims = s, entry = f\<rparr>)"

text \<open>
  Broadcasting pairs the entry of the result at index \<open>i\<close> with the entry of an operand
  of shape \<open>s\<close> at the last \<open>length s\<close> components of \<open>i\<close>, with 0 along every axis where
  the operand has size 1.
\<close>

definition operand_index :: "shape \<Rightarrow> nat list \<Rightarrow> nat list" where
  "operand_index s i = map2 (\<lambda>d k. if d = 1 then 0 else k) s (drop (length i - length s) i)"

text \<open>Elementwise \<^verbatim>\<open>a op b\<close> and elementwise functions (\<^verbatim>\<open>torch.sqrt\<close>, adding a number).\<close>

definition v_binop :: "(real \<Rightarrow> real \<Rightarrow> real) \<Rightarrow> tensor \<Rightarrow> tensor \<Rightarrow> error + tensor" where
  "v_binop f a b =
     with_dims (broadcast (dims a) (dims b))
       (\<lambda>i. f (entry a (operand_index (dims a) i)) (entry b (operand_index (dims b) i)))"

definition v_map :: "(real \<Rightarrow> real) \<Rightarrow> tensor \<Rightarrow> tensor" where
  "v_map f a = \<lparr>dims = dims a, entry = (\<lambda>i. f (entry a i))\<rparr>"

text \<open>
  The entries along the last axis through index \<open>i\<close>, and the reductions
  \<^verbatim>\<open>x.mean(-1, keepdim=True)\<close> and \<^verbatim>\<open>x.var(-1, keepdim=True, unbiased=False)\<close>: the mean,
  and the mean of the squared deviations from it.
\<close>

definition last_axis :: "tensor \<Rightarrow> nat list \<Rightarrow> real list" where
  "last_axis x i =
     (if dims x = [] then [entry x []]
      else map (\<lambda>n. entry x (butlast i @ [n])) [0..<last (dims x)])"

definition mean :: "real list \<Rightarrow> real" where
  "mean xs = sum_list xs / real (length xs)"

definition pvar :: "real list \<Rightarrow> real" where
  "pvar xs = (\<Sum>v\<leftarrow>xs. (v - mean xs)\<^sup>2) / real (length xs)"

definition v_mean_last :: "tensor \<Rightarrow> tensor" where
  "v_mean_last x = \<lparr>dims = reduce_last_keepdim (dims x), entry = (\<lambda>i. mean (last_axis x i))\<rparr>"

definition v_var_last :: "tensor \<Rightarrow> tensor" where
  "v_var_last x = \<lparr>dims = reduce_last_keepdim (dims x), entry = (\<lambda>i. pvar (last_axis x i))\<rparr>"

subsection \<open>Layer normalisation\<close>

text \<open>
  \<^verbatim>\<open>BiasFree_LayerNorm.forward\<close> (lines 42 to 44) and \<^verbatim>\<open>WithBias_LayerNorm.forward\<close>
  (lines 59 to 62); \<open>weight\<close> and \<open>bias\<close> are the module's parameters.
\<close>

definition BiasFree_LayerNorm_value :: "tensor \<Rightarrow> tensor \<Rightarrow> error + tensor" where
  "BiasFree_LayerNorm_value weight x =
     (let sigma = v_var_last x in
      and_then (v_binop (/) x (v_map sqrt (v_map (\<lambda>s. s + 0.00001) sigma))) (\<lambda>y.
      v_binop (*) y weight))"

definition WithBias_LayerNorm_value :: "tensor \<Rightarrow> tensor \<Rightarrow> tensor \<Rightarrow> error + tensor" where
  "WithBias_LayerNorm_value weight bias x =
     (let mu = v_mean_last x;
          sigma = v_var_last x in
      and_then (v_binop (-) x mu) (\<lambda>d.
      and_then (v_binop (/) d (v_map sqrt (v_map (\<lambda>s. s + 0.00001) sigma))) (\<lambda>y.
      and_then (v_binop (*) y weight) (\<lambda>z.
      v_binop (+) z bias))))"

text \<open>
  \<^verbatim>\<open>to_3d\<close> and \<^verbatim>\<open>to_4d\<close> on values: entry \<open>(b, p, c)\<close> of the sequence is entry
  \<open>(b, c, p div W, p mod W)\<close> of the \<open>(B, C, H, W)\<close> tensor, and back.
\<close>

definition v_to_3d :: "tensor \<Rightarrow> error + tensor" where
  "v_to_3d x =
     with_dims (to_3d (dims x))
       (\<lambda>i. entry x [i ! 0, i ! 2, (i ! 1) div (dims x ! 3), (i ! 1) mod (dims x ! 3)])"

definition v_to_4d :: "tensor \<Rightarrow> nat \<Rightarrow> nat \<Rightarrow> error + tensor" where
  "v_to_4d x h w =
     with_dims (to_4d (dims x) h w)
       (\<lambda>i. entry x [i ! 0, (i ! 2) * w + i ! 3, i ! 1])"

text \<open>\<^verbatim>\<open>LayerNorm.forward\<close> (lines 73 to 75) around either body.\<close>

definition LayerNorm_value :: "(tensor \<Rightarrow> error + tensor) \<Rightarrow> tensor \<Rightarrow> error + tensor" where
  "LayerNorm_value body x =
     and_then (shape_last2 (dims x)) (\<lambda>(h, w).
     and_then (v_to_3d x) (\<lambda>x3.
     and_then (body x3) (\<lambda>y.
     v_to_4d y h w)))"

section \<open>Rounded arithmetic\<close>



text \<open>
  The reductions and \<^verbatim>\<open>WithBias_LayerNorm.forward\<close> (lines 59 to 62) with every
  operation followed by a rounding \<open>rnd\<close>: the identity gives the exact layer of the
  previous section, \<open>fl32\<close> the layer on binary32 tensors. A rounded sum depends on the
  order of its additions, which is the kernel's choice; here it runs left to right, and
  on a row of two entries every order gives the same sum.
\<close>

definition r_sum :: "(real \<Rightarrow> real) \<Rightarrow> real list \<Rightarrow> real" where
  "r_sum rnd xs = foldl (\<lambda>a v. rnd (a + v)) 0 xs"

definition r_mean :: "(real \<Rightarrow> real) \<Rightarrow> real list \<Rightarrow> real" where
  "r_mean rnd xs = rnd (r_sum rnd xs / real (length xs))"

definition r_pvar :: "(real \<Rightarrow> real) \<Rightarrow> real list \<Rightarrow> real" where
  "r_pvar rnd xs =
     rnd (r_sum rnd (map (\<lambda>v. rnd ((rnd (v - r_mean rnd xs))\<^sup>2)) xs) / real (length xs))"

definition r_mean_last :: "(real \<Rightarrow> real) \<Rightarrow> tensor \<Rightarrow> tensor" where
  "r_mean_last rnd x =
     \<lparr>dims = reduce_last_keepdim (dims x), entry = (\<lambda>i. r_mean rnd (last_axis x i))\<rparr>"

definition r_var_last :: "(real \<Rightarrow> real) \<Rightarrow> tensor \<Rightarrow> tensor" where
  "r_var_last rnd x =
     \<lparr>dims = reduce_last_keepdim (dims x), entry = (\<lambda>i. r_pvar rnd (last_axis x i))\<rparr>"

definition WithBias_LayerNorm_rounded ::
    "(real \<Rightarrow> real) \<Rightarrow> tensor \<Rightarrow> tensor \<Rightarrow> tensor \<Rightarrow> error + tensor" where
  "WithBias_LayerNorm_rounded rnd weight bias x =
     (let mu = r_mean_last rnd x;
          sigma = r_var_last rnd x in
      and_then (v_binop (\<lambda>u v. rnd (u - v)) x mu) (\<lambda>d.
      and_then (v_binop (\<lambda>u v. rnd (u / v)) d
                  (v_map (\<lambda>s. rnd (sqrt s)) (v_map (\<lambda>s. rnd (s + rnd 0.00001)) sigma))) (\<lambda>y.
      and_then (v_binop (\<lambda>u v. rnd (u * v)) y weight) (\<lambda>z.
      v_binop (\<lambda>u v. rnd (u + v)) z bias))))"

subsection \<open>Attention\<close>










subsection \<open>What the attention computes, entry by entry\<close>

text \<open>
  The description of the attention, with the normalisation taken along the flattened
  spatial axis: for a \<open>qkv\<close> tensor of shape \<open>(B, 3 C, H, W)\<close> with \<open>C = heads * D\<close>, the
  query, key and value of head \<open>k\<close>, channel \<open>c\<close> at position \<open>n\<close>; a row over \<open>N\<close>
  positions divided by its Euclidean norm; the attention weight of key channel \<open>j\<close> for
  query channel \<open>c\<close>, a softmax over \<open>j\<close> of the temperature-scaled dot products over the
  positions; and the output, the weighted sum of the values.
\<close>

definition mdta_query :: "tensor \<Rightarrow> nat \<Rightarrow> nat \<Rightarrow> nat \<Rightarrow> nat \<Rightarrow> nat \<Rightarrow> nat \<Rightarrow> real" where
  "mdta_query qkv D W b k c n = entry qkv [b, k * D + c, n div W, n mod W]"

definition mdta_key :: "tensor \<Rightarrow> nat \<Rightarrow> nat \<Rightarrow> nat \<Rightarrow> nat \<Rightarrow> nat \<Rightarrow> nat \<Rightarrow> nat \<Rightarrow> real" where
  "mdta_key qkv C D W b k c n = entry qkv [b, C + (k * D + c), n div W, n mod W]"


definition unit_row :: "(nat \<Rightarrow> real) \<Rightarrow> nat \<Rightarrow> nat \<Rightarrow> real" where
  "unit_row f N n = f n / max (sqrt (\<Sum>m\<leftarrow>[0..<N]. (f m)\<^sup>2)) 0.000000000001"

definition mdta_logit ::
    "tensor \<Rightarrow> tensor \<Rightarrow> nat \<Rightarrow> nat \<Rightarrow> nat \<Rightarrow> nat \<Rightarrow> nat \<Rightarrow> nat \<Rightarrow> nat \<Rightarrow> nat \<Rightarrow> real" where
  "mdta_logit qkv temperature C D W N b k c j =
     (\<Sum>n\<leftarrow>[0..<N]. unit_row (mdta_query qkv D W b k c) N n
                      * unit_row (mdta_key qkv C D W b k j) N n)
     * entry temperature [k, 0, 0]"

definition mdta_weight ::
    "tensor \<Rightarrow> tensor \<Rightarrow> nat \<Rightarrow> nat \<Rightarrow> nat \<Rightarrow> nat \<Rightarrow> nat \<Rightarrow> nat \<Rightarrow> nat \<Rightarrow> nat \<Rightarrow> real" where
  "mdta_weight qkv temperature C D W N b k c j =
     exp (mdta_logit qkv temperature C D W N b k c j)
     / (\<Sum>j'\<leftarrow>[0..<D]. exp (mdta_logit qkv temperature C D W N b k c j'))"


section \<open>Stages\<close>

text \<open>
  A \<^verbatim>\<open>BasicLayer\<close> holds its group number, the list of its transformer blocks and,
  when constructed with \<open>group > 1\<close>, a Hierarchical Integration Module. Its forward pass
  only calls the submodules, so it is written once for every kind of tensor \<open>'t\<close> and
  prior \<open>'p\<close>: a submodule is the function its forward method computes.
\<close>

record ('t, 'p) BasicLayer =
  layer_group :: int
  blocks :: "('t \<Rightarrow> 'p option \<Rightarrow> error + 't) list"
  him :: "('t \<Rightarrow> 'p \<Rightarrow> error + 't) option"

text \<open>\<^verbatim>\<open>for blk in self.blocks: x = blk(x, prior)\<close>\<close>

fun run_blocks :: "('t \<Rightarrow> 'p option \<Rightarrow> error + 't) list \<Rightarrow> 't \<Rightarrow> 'p option \<Rightarrow> error + 't" where
  "run_blocks [] x prior = Inr x"
| "run_blocks (blk # blks) x prior = and_then (blk x prior) (\<lambda>x. run_blocks blks x prior)"

definition BasicLayer_forward :: "('t, 'p) BasicLayer \<Rightarrow> 't \<Rightarrow> 'p option \<Rightarrow> error + 't" where
  "BasicLayer_forward m x prior =
     and_then
       (case prior of
          Some p \<Rightarrow>
            if layer_group m > 1
            then and_then (get_attr (him m)) (\<lambda>h.
                 and_then (h x p) (\<lambda>x.
                 Inr (x, None)))
            else Inr (x, prior)
        | None \<Rightarrow> Inr (x, prior))
       (\<lambda>(x, prior). run_blocks (blocks m) x prior)"

definition BasicLayer_init ::
    "nat \<Rightarrow> nat \<Rightarrow> real \<Rightarrow> bool \<Rightarrow> string \<Rightarrow> nat \<Rightarrow> nat \<Rightarrow> int \<Rightarrow> (shape, shape) BasicLayer" where
  "BasicLayer_init dm num_heads ffn_expansion_factor bias LayerNorm_type embed_dim n_blocks grp =
     \<lparr>layer_group = grp,
      blocks = replicate n_blocks
         (TransformerBlock_forward
            (TransformerBlock_init dm num_heads ffn_expansion_factor bias LayerNorm_type
               embed_dim grp)),
      him = (if grp > 1
             then Some (HIM_forward (HIM_init dm num_heads bias embed_dim LayerNorm_type))
             else None)\<rparr>"

subsection \<open>Recording the calls of a stage\<close>

text \<open>
  To observe which submodules a stage calls, in which order and with which prior, each
  submodule is wrapped so that it appends an event to a log carried beside the tensor.
\<close>

datatype 'p event = Fusion 'p | Block nat "'p option"

definition logged_him ::
    "('t \<Rightarrow> 'p \<Rightarrow> error + 't) \<Rightarrow> 't \<times> 'p event list \<Rightarrow> 'p \<Rightarrow> error + 't \<times> 'p event list" where
  "logged_him h = (\<lambda>(x, calls) p. and_then (h x p) (\<lambda>y. Inr (y, calls @ [Fusion p])))"

definition logged_block ::
    "nat \<times> ('t \<Rightarrow> 'p option \<Rightarrow> error + 't) \<Rightarrow> 't \<times> 'p event list \<Rightarrow> 'p option
       \<Rightarrow> error + 't \<times> 'p event list" where
  "logged_block = (\<lambda>(i, blk) (x, calls) prior.
     and_then (blk x prior) (\<lambda>y. Inr (y, calls @ [Block i prior])))"

definition logged :: "('t, 'p) BasicLayer \<Rightarrow> ('t \<times> 'p event list, 'p) BasicLayer" where
  "logged m =
     \<lparr>layer_group = layer_group m,
      blocks = map logged_block (enumerate 0 (blocks m)),
      him = map_option logged_him (him m)\<rparr>"

text \<open>A result that is a tensor or the error of a shape mismatch.\<close>

definition shape_errors_only :: "error + 'a \<Rightarrow> bool" where
  "shape_errors_only r = (case r of Inl e \<Rightarrow> e = ShapeError | Inr v \<Rightarrow> True)"

section \<open>The network\<close>

text \<open>
  The submodules of \<^verbatim>\<open>Transformer\<close>, each the function its forward method computes.
  The encoder branch (\<open>encoder_level1\<close>, \<open>down1_2\<close>, \<open>encoder_level2\<close>, \<open>down2_3\<close>,
  \<open>encoder_level3\<close>, \<open>down3_4\<close>) is constructed like the rest. \<open>skip_conv\<close> exists
  only when \<open>dual_pixel_task\<close> is set.
\<close>

record 't Transformer =
  mae_encoder :: "'t \<Rightarrow> error + 't"
  linear_layer :: "'t \<Rightarrow> error + 't"
  channel_expand_layer :: "'t \<Rightarrow> error + 't"
  conv_layer :: "'t \<Rightarrow> error + 't"
  upsample_layer :: "'t \<Rightarrow> error + 't"
  channel_increase_layer_level3 :: "'t \<Rightarrow> error + 't"
  channel_increase_layer_level2 :: "'t \<Rightarrow> error + 't"
  channel_increase_layer_level1 :: "'t \<Rightarrow> error + 't"
  down_1 :: "'t \<Rightarrow> error + 't"
  down_2 :: "'t \<Rightarrow> error + 't"
  patch_embed :: "'t \<Rightarrow> error + 't"
  channel_reducer :: "'t \<Rightarrow> error + 't"
  encoder_level1 :: "('t, 't) BasicLayer"
  down1_2 :: "'t \<Rightarrow> error + 't"
  encoder_level2 :: "('t, 't) BasicLayer"
  down2_3 :: "'t \<Rightarrow> error + 't"
  encoder_level3 :: "('t, 't) BasicLayer"
  down3_4 :: "'t \<Rightarrow> error + 't"
  latent :: "('t, 't) BasicLayer"
  up4_3 :: "'t \<Rightarrow> error + 't"
  reduce_chan_level3 :: "'t \<Rightarrow> error + 't"
  decoder_level3 :: "('t, 't) BasicLayer"
  up3_2 :: "'t \<Rightarrow> error + 't"
  reduce_chan_level2 :: "'t \<Rightarrow> error + 't"
  decoder_level2 :: "('t, 't) BasicLayer"
  up2_1 :: "'t \<Rightarrow> error + 't"
  decoder_level1 :: "('t, 't) BasicLayer"
  refinement :: "('t, 't) BasicLayer"
  dual_pixel_task :: bool
  skip_conv :: "('t \<Rightarrow> error + 't) option"
  output_conv :: "'t \<Rightarrow> error + 't"

text \<open>
  The tensor methods and operators that \<^verbatim>\<open>Transformer.forward\<close> applies itself:
  \<^verbatim>\<open>flatten(1)\<close>, \<^verbatim>\<open>permute(0, 2, 1)\<close>, \<^verbatim>\<open>view(x.size(0), 64, 14, 14)\<close> and \<^verbatim>\<open>+\<close>.
\<close>

record 't tensor_ops =
  t_flatten_1 :: "'t \<Rightarrow> error + 't"
  t_permute_0_2_1 :: "'t \<Rightarrow> error + 't"
  t_view_64_14_14 :: "'t \<Rightarrow> error + 't"
  t_add :: "'t \<Rightarrow> 't \<Rightarrow> error + 't"

text \<open>
  \<^verbatim>\<open>Transformer.forward(inp_img, prior=None)\<close>, lines 400 to 487; the statements the
  source has commented out are left out. The first statement applies \<open>down_1\<close> to the
  prior whether or not it is \<^verbatim>\<open>None\<close>.
\<close>

definition Transformer_forward ::
    "'t tensor_ops \<Rightarrow> 't Transformer \<Rightarrow> 't \<Rightarrow> 't option \<Rightarrow> error + 't" where
  "Transformer_forward T m inp_img prior =
     (let prior_1 = prior in
      and_then (call_on prior_1 (down_1 m)) (\<lambda>prior_2.
      and_then (and_then (down_2 m prior_2) (t_flatten_1 T)) (\<lambda>prior_3.
      and_then (patch_embed m inp_img) (\<lambda>inp_enc_level1.
      and_then (channel_reducer m inp_enc_level1) (\<lambda>inp_enc_level1.
      and_then (mae_encoder m inp_enc_level1) (\<lambda>mae_output.
      and_then (t_permute_0_2_1 T mae_output) (\<lambda>mae_output.
      and_then (linear_layer m mae_output) (\<lambda>mae_output.
      and_then (t_view_64_14_14 T mae_output) (\<lambda>mae_output.
      and_then (channel_expand_layer m mae_output) (\<lambda>mae_output.
      and_then (conv_layer m mae_output) (\<lambda>mae_output.
      and_then (upsample_layer m mae_output) (\<lambda>mae_output.
      and_then (BasicLayer_forward (latent m) mae_output (Some prior_3)) (\<lambda>latent_out.
      and_then (up4_3 m latent_out) (\<lambda>inp_dec_level3.
      and_then (channel_increase_layer_level3 m inp_dec_level3) (\<lambda>inp_dec_level3.
      and_then (reduce_chan_level3 m inp_dec_level3) (\<lambda>inp_dec_level3.
      and_then (BasicLayer_forward (decoder_level3 m) inp_dec_level3 (Some prior_2)) (\<lambda>out_dec_level3.
      and_then (up3_2 m out_dec_level3) (\<lambda>inp_dec_level2.
      and_then (channel_increase_layer_level2 m inp_dec_level2) (\<lambda>inp_dec_level2.
      and_then (reduce_chan_level2 m inp_dec_level2) (\<lambda>inp_dec_level2.
      and_then (BasicLayer_forward (decoder_level2 m) inp_dec_level2 (Some prior_2)) (\<lambda>out_dec_level2.
      and_then (up2_1 m out_dec_level2) (\<lambda>inp_dec_level1.
      and_then (channel_increase_layer_level1 m inp_dec_level1) (\<lambda>inp_dec_level1.
      and_then (BasicLayer_forward (decoder_level1 m) inp_dec_level1 prior_1) (\<lambda>out_dec_level1.
      and_then (BasicLayer_forward (refinement m) out_dec_level1 prior_1) (\<lambda>out_dec_level1.
      if dual_pixel_task m
      then and_then (and_then (get_attr (skip_conv m)) (\<lambda>f. f inp_enc_level1)) (\<lambda>s.
           and_then (t_add T out_dec_level1 s) (\<lambda>out_dec_level1.
           output_conv m out_dec_level1))
      else and_then (output_conv m out_dec_level1) (\<lambda>out.
           t_add T out inp_img))))))))))))))))))))))))))"

subsection \<open>Construction\<close>

text \<open>The arguments of \<^verbatim>\<open>Transformer.__init__\<close>. \<open>mae_weights_path\<close> only loads
  weights into the encoder and has no part in the shapes.\<close>

record Config =
  inp_channels :: nat
  out_channels :: nat
  dim' :: nat
  num_blocks :: "nat list"
  num_refinement_blocks :: nat
  heads :: "nat list"
  ffn_expansion_factor :: real
  bias :: bool
  LayerNorm_type :: string
  dual_pixel_task_arg :: bool
  embed_dim :: nat
  group' :: int

text \<open>\<^verbatim>\<open>nn.Sequential\<close> runs its layers in order.\<close>

fun Sequential :: "('t \<Rightarrow> error + 't) list \<Rightarrow> 't \<Rightarrow> error + 't" where
  "Sequential [] x = Inr x"
| "Sequential (f # fs) x = and_then (f x) (Sequential fs)"

text \<open>
  Modelled from the spec: the masked-autoencoder encoder
  (\<^verbatim>\<open>hi_diff.archs.mae_encoder.MaskedAutoencoderViT\<close>) is not among the sources. The
  spec treats it as an opaque collaborator that, given an image-like tensor, returns a
  token sequence of fixed embedding width; the comments of \<^verbatim>\<open>Transformer.forward\<close> and
  the layers that consume its output (\<^verbatim>\<open>permute(0, 2, 1)\<close>, \<^verbatim>\<open>Linear(50, 14 * 14)\<close>,
  \<^verbatim>\<open>view(B, 64, 14, 14)\<close>) fix that sequence to \<open>(B, 50, 64)\<close>. This model accepts every
  four-axis input, whatever its height and width.
\<close>

definition mae_tokens :: "shape \<Rightarrow> error + shape" where
  "mae_tokens x = (case x of [b, c, h, w] \<Rightarrow> Inr [b, 50, 64] | _ \<Rightarrow> Inl ShapeError)"

text \<open>
  \<^verbatim>\<open>Transformer.__init__\<close> on shapes, lines 332 to 392, with the encoder given as a
  parameter. Python's \<^verbatim>\<open>//\<close> on integers is \<open>div\<close>.
\<close>

definition Transformer_init :: "Config \<Rightarrow> (shape \<Rightarrow> error + shape) \<Rightarrow> shape Transformer" where
  "Transformer_init cfg mae =
     (let d = dim' cfg; g = group' cfg; e = embed_dim cfg;
          layer = (\<lambda>dm hd n grp. BasicLayer_init dm hd (ffn_expansion_factor cfg) (bias cfg)
                      (LayerNorm_type cfg) e n grp)
      in
      \<lparr>mae_encoder = mae,
       linear_layer = Linear_forward \<lparr>in_features = 50, out_features = 14 * 14\<rparr>,
       channel_expand_layer = Conv2d_forward (Conv2d_init 64 384 1 1 0 1 True),
       conv_layer = Conv2d_forward (Conv2d_init 384 384 3 1 1 1 True),
       upsample_layer = Upsample_bilinear (28, 28),
       channel_increase_layer_level3 = Conv2d_forward (Conv2d_init 192 384 1 1 0 1 True),
       channel_increase_layer_level2 = Conv2d_forward (Conv2d_init 96 192 1 1 0 1 True),
       channel_increase_layer_level1 = Conv2d_forward (Conv2d_init 48 96 1 1 0 1 True),
       down_1 = Sequential
         [Rearrange_swap,
          Linear_forward \<lparr>in_features = nat (g * g), out_features = nat ((g * g) div 4)\<rparr>,
          Rearrange_swap,
          Linear_forward \<lparr>in_features = e * 4, out_features = e * 4\<rparr>],
       down_2 = Sequential
         [Rearrange_swap,
          Linear_forward \<lparr>in_features = nat ((g * g) div 4), out_features = 1\<rparr>,
          Rearrange_swap,
          Linear_forward \<lparr>in_features = e * 4, out_features = e * 4\<rparr>],
       patch_embed = OverlapPatchEmbed_forward (OverlapPatchEmbed_init (inp_channels cfg) d False),
       channel_reducer = Conv2d_forward (Conv2d_init 48 3 1 1 0 1 False),
       encoder_level1 = layer d (heads cfg ! 0) (num_blocks cfg ! 0) g,
       down1_2 = Downsample_forward (Downsample_init d),
       encoder_level2 = layer (d * 2) (heads cfg ! 1) (num_blocks cfg ! 1) (g div 2),
       down2_3 = Downsample_forward (Downsample_init (d * 2)),
       encoder_level3 = layer (d * 4) (heads cfg ! 2) (num_blocks cfg ! 2) (g div 2),
       down3_4 = Downsample_forward (Downsample_init (d * 4)),
       latent = layer (d * 8) (heads cfg ! 3) (num_blocks cfg ! 3) 1,
       up4_3 = Upsample_forward (Upsample_init (d * 8)),
       reduce_chan_level3 = Conv2d_forward (Conv2d_init (d * 8) (d * 4) 1 1 0 1 (bias cfg)),
       decoder_level3 = layer (d * 4) (heads cfg ! 2) (num_blocks cfg ! 2) (g div 2),
       up3_2 = Upsample_forward (Upsample_init (d * 4)),
       reduce_chan_level2 = Conv2d_forward (Conv2d_init (d * 4) (d * 2) 1 1 0 1 (bias cfg)),
       decoder_level2 = layer (d * 2) (heads cfg ! 1) (num_blocks cfg ! 1) (g div 2),
       up2_1 = Upsample_forward (Upsample_init (d * 2)),
       decoder_level1 = layer (d * 2) (heads cfg ! 0) (num_blocks cfg ! 0) g,
       refinement = layer (d * 2) (heads cfg ! 0) (num_refinement_blocks cfg) g,
       dual_pixel_task = dual_pixel_task_arg cfg,
       skip_conv = (if dual_pixel_task_arg cfg
                    then Some (Conv2d_forward (Conv2d_init d (d * 2) 1 1 0 1 (bias cfg)))
                    else None),
       output_conv = Conv2d_forward (Conv2d_init (d * 2) (out_channels cfg) 3 1 1 1 (bias cfg))\<rparr>)"

text \<open>The tensor methods on shapes.\<close>

definition shape_ops :: "shape tensor_ops" where
  "shape_ops =
     \<lparr>t_flatten_1 = flatten_1,
      t_permute_0_2_1 = permute_0_2_1,
      t_view_64_14_14 = view_size0 64 14 14,
      t_add = broadcast\<rparr>"

text \<open>The default arguments of \<^verbatim>\<open>Transformer.__init__\<close>.\<close>

definition default_config :: Config where
  "default_config =
     \<lparr>inp_channels = 3, out_channels = 3, dim' = 48, num_blocks = [4, 6, 6, 8],
      num_refinement_blocks = 4, heads = [1, 2, 4, 8], ffn_expansion_factor = 2.66,
      bias = False, LayerNorm_type = ''WithBias'', dual_pixel_task_arg = False,
      embed_dim = 48, group' = 4\<rparr>"


section \<open>Basic facts\<close>

lemma and_then_Inr [simp]: "and_then (Inr v) f = f v"
  by (simp add: and_then_def)

lemma and_then_Inl [simp]: "and_then (Inl e) f = Inl e"
  by (simp add: and_then_def)

lemma and_then_eq_Inr:
  "and_then r f = Inr y \<longleftrightarrow> (\<exists>v. r = Inr v \<and> f v = Inr y)"
  by (cases r) simp_all

lemma call_on_simps [simp]:
  "call_on None f = Inl NoneTensorError"
  "call_on (Some t) f = f t"
  by (simp_all add: call_on_def)

lemma get_attr_simps [simp]:
  "get_attr None = Inl AttributeError"
  "get_attr (Some v) = Inr v"
  by (simp_all add: get_attr_def)

subsection \<open>Shapes through the layers\<close>

lemma broadcast_rev_same: "broadcast_rev xs xs = Inr xs"
  by (induction xs) simp_all

lemma broadcast_same: "broadcast x x = Inr x"
  by (simp add: broadcast_def broadcast_rev_same)

lemma broadcast_rev_Nil: "broadcast_rev xs [] = Inr xs"
  by (cases xs) simp_all

lemma broadcast_keepdim: "broadcast (xs @ [n]) (xs @ [Suc 0]) = Inr (xs @ [n])"
  by (simp add: broadcast_def broadcast_rev_same)

lemma broadcast_weight: "broadcast (xs @ [n]) [n] = Inr (xs @ [n])"
  by (simp add: broadcast_def broadcast_rev_Nil)

lemma broadcast_film: "broadcast [b, c, h, w] [b, c, Suc 0, Suc 0] = Inr [b, c, h, w]"
  by (simp add: broadcast_def)

lemma Conv2d_1x1:
  assumes "0 < h" "0 < w"
  shows "Conv2d_forward (Conv2d_init i out (Suc 0) (Suc 0) 0 (Suc 0) bi) [b, i, h, w] = Inr [b, out, h, w]"
  using assms
  by (simp add: Conv2d_forward_def Conv2d_init_def conv_accepts_def conv_constructed_def
      conv_size_def)

lemma Conv2d_3x3:
  assumes "0 < h" "0 < w"
  shows "Conv2d_forward (Conv2d_init i out 3 (Suc 0) (Suc 0) (Suc 0) bi) [b, i, h, w] = Inr [b, out, h, w]"
  using assms
  by (simp add: Conv2d_forward_def Conv2d_init_def conv_accepts_def conv_constructed_def
      conv_size_def)

lemma Conv2d_depthwise:
  assumes "0 < h" "0 < w" "0 < c"
  shows "Conv2d_forward (Conv2d_init c c 3 (Suc 0) (Suc 0) c bi) [b, c, h, w] = Inr [b, c, h, w]"
  using assms
  by (simp add: Conv2d_forward_def Conv2d_init_def conv_accepts_def conv_constructed_def
      conv_size_def)

lemma Linear_last:
  "Linear_forward \<lparr>in_features = n, out_features = k\<rparr> (xs @ [n]) = Inr (xs @ [k])"
  by (simp add: Linear_forward_def)

lemma Linear_2d:
  "Linear_forward \<lparr>in_features = n, out_features = k\<rparr> [b, n] = Inr [b, k]"
  using Linear_last [of n k "[b]"] by simp

lemma Linear_3d:
  "Linear_forward \<lparr>in_features = n, out_features = k\<rparr> [b, m, n] = Inr [b, m, k]"
  using Linear_last [of n k "[b, m]"] by simp

lemma chunk_sizes_multiple:
  assumes "0 < n"
  shows "chunk_sizes (n * c) n = replicate n c"
proof (cases "c = 0")
  case True
  with assms show ?thesis by (simp add: chunk_sizes_def)
next
  case False
  have "(n * c + n - 1) div n = c"
  proof (cases n)
    case 0
    with assms show ?thesis by simp
  next
    case (Suc m)
    have "(Suc m * c + Suc m - 1) div Suc m = (c * Suc m + m) div Suc m"
      by (simp add: mult.commute)
    also have "\<dots> = c"
      by (simp only: div_mult_self3 [OF Suc_not_Zero] div_less [OF lessI] add_0_right)
    finally show ?thesis using Suc by simp
  qed
  with False assms show ?thesis by (simp add: chunk_sizes_def Let_def)
qed

lemma chunk_3_channels:
  "and_then (chunk 3 (Suc 0) [b, c * 3, h, w]) unpack3 = Inr ([b, c, h, w], [b, c, h, w], [b, c, h, w])"
  using chunk_sizes_multiple [of 3 c]
  by (simp add: chunk_def unpack3_def mult.commute numeral_3_eq_3)

lemma chunk_2_channels:
  "and_then (chunk 2 (Suc 0) [b, c * 2, h, w]) unpack2 = Inr ([b, c, h, w], [b, c, h, w])"
  using chunk_sizes_multiple [of 2 c]
  by (simp add: chunk_def unpack2_def mult.commute numeral_2_eq_2)

lemma chunk_2_last:
  "and_then (chunk 2 (Suc (Suc 0)) [b, n, 2 * c]) unpack2 = Inr ([b, n, c], [b, n, c])"
  using chunk_sizes_multiple [of 2 c]
  by (simp add: chunk_def unpack2_def numeral_2_eq_2)

lemma LayerNorm_body_shape:
  "body_forward (LayerNorm_init n ty) (xs @ [n]) = Inr (xs @ [n])"
  by (simp add: LayerNorm_init_def BiasFree_LayerNorm_forward_def WithBias_LayerNorm_forward_def
      reduce_last_keepdim_def broadcast_keepdim broadcast_weight)

lemma LayerNorm_shape:
  "LayerNorm_forward (LayerNorm_init c ty) [b, c, h, w] = Inr [b, c, h, w]"
  using LayerNorm_body_shape [of c ty "[b, h * w]"]
  by (simp add: LayerNorm_forward_def shape_last2_def to_3d_def to_4d_def)

lemma LayerNorm_Without_Shape_shape:
  "LayerNorm_Without_Shape_forward (LayerNorm_init n ty) [b, m, n] = Inr [b, m, n]"
  using LayerNorm_body_shape [of n ty "[b, m]"]
  by (simp add: LayerNorm_Without_Shape_forward_def shape_last2_def)

lemma film_None: "film l1 l2 x None = Inr x"
  by (simp add: film_def)

lemma film_shape:
  "film (Some \<lparr>in_features = n, out_features = c\<rparr>) (Some \<lparr>in_features = n, out_features = c\<rparr>)
     [b, c, h, w] (Some [b, n]) = Inr [b, c, h, w]"
  by (simp add: film_def film_coeff_def Linear_2d unsqueeze_last_def broadcast_film)

lemma film_group1:
  "film (if (1::int) = 1 then Some l else None) (if (1::int) = 1 then Some l else None) x p
     = film (Some l) (Some l) x p"
  by simp

lemma Attention_shape:
  assumes "0 < nh" "nh dvd c" "0 < h" "0 < w" "0 < c"
    and p: "p = None \<or> (g = 1 \<and> p = Some [b, e * 4])"
  shows "Attention_forward (Attention_init c nh bi e g) [b, c, h, w] p = Inr [b, c, h, w]"
proof -
  have f: "film (attn_ln1 (Attention_init c nh bi e g)) (attn_ln2 (Attention_init c nh bi e g))
             [b, c, h, w] p = Inr [b, c, h, w]"
    using p by (auto simp: Attention_init_def film_None film_shape)
  have q: "and_then (Conv2d_forward (attn_qkv (Attention_init c nh bi e g)) [b, c, h, w])
             (Conv2d_forward (attn_qkv_dwconv (Attention_init c nh bi e g))) = Inr [b, c * 3, h, w]"
    using assms by (simp add: Attention_init_def Conv2d_1x1 Conv2d_depthwise)
  have o: "Conv2d_forward (attn_project_out (Attention_init c nh bi e g)) [b, c, h, w]
             = Inr [b, c, h, w]"
    using assms by (simp add: Attention_init_def Conv2d_1x1)
  have n: "attn_num_heads (Attention_init c nh bi e g) = nh"
    by (simp add: Attention_init_def)
  show ?thesis
    unfolding Attention_forward_def
    using assms(1,2)
    by (simp add: shape_bchw_def f q o n chunk_3_channels split_heads_4d_def
        transpose_last2_def matmul_def broadcast_def merge_heads_4d_def)
qed


lemma Upsample_shape:
  assumes "0 < h" "0 < w" "even c"
  shows "Upsample_forward (Upsample_init c) [b, c, h, w]
           = Inr [b, (c * 2) div 4, h * 2, w * 2]"
  using assms
  by (auto simp: Upsample_forward_def Upsample_init_def Conv2d_3x3 PixelShuffle_def)

lemma hidden_features_pos:
  assumes "1 \<le> 96 * f" "96 \<le> c"
  shows "0 < nat (py_int (real c * f))"
proof -
  have f: "0 < f" using assms(1) by simp
  have "96 * f \<le> real c * f"
    using assms(2) f by (simp add: mult_right_mono)
  with assms(1) have "1 \<le> real c * f" by linarith
  then have "1 \<le> \<lfloor>real c * f\<rfloor>" by (simp add: le_floor_iff)
  moreover have "0 \<le> real c * f" using f by simp
  ultimately show ?thesis by (simp add: py_int_def)
qed

lemma FeedForward_shape:
  assumes "0 < h" "0 < w" "0 < nat (py_int (real c * f))"
    and p: "p = None \<or> (g = 1 \<and> p = Some [b, e * 4])"
  shows "FeedForward_forward (FeedForward_init c f bi e g) [b, c, h, w] p = Inr [b, c, h, w]"
proof -
  define hid where "hid = nat (py_int (real c * f))"
  have m: "FeedForward_init c f bi e g =
      \<lparr>ffn_project_in = Conv2d_init c (hid * 2) (Suc 0) (Suc 0) 0 (Suc 0) bi,
       ffn_dwconv = Conv2d_init (hid * 2) (hid * 2) 3 (Suc 0) (Suc 0) (hid * 2) bi,
       ffn_project_out = Conv2d_init hid c (Suc 0) (Suc 0) 0 (Suc 0) bi,
       ffn_ln1 = (if g = 1 then Some \<lparr>in_features = e * 4, out_features = c\<rparr> else None),
       ffn_ln2 = (if g = 1 then Some \<lparr>in_features = e * 4, out_features = c\<rparr> else None)\<rparr>"
    by (simp add: FeedForward_init_def hid_def Let_def)
  have hid: "0 < hid * 2" using assms(3) by (simp add: hid_def)
  have fl: "film (ffn_ln1 (FeedForward_init c f bi e g)) (ffn_ln2 (FeedForward_init c f bi e g))
             [b, c, h, w] p = Inr [b, c, h, w]"
    using p by (auto simp: m film_None film_shape)
  show ?thesis
    unfolding FeedForward_forward_def fl
    using assms(1,2) hid
    by (simp add: m Conv2d_1x1 Conv2d_depthwise chunk_2_channels broadcast_same)
qed

lemma TransformerBlock_shape:
  assumes "0 < nh" "nh dvd c" "0 < h" "0 < w" "0 < c" "0 < nat (py_int (real c * f))"
    and p: "p = None \<or> (g = 1 \<and> p = Some [b, e * 4])"
  shows "TransformerBlock_forward (TransformerBlock_init c nh f bi ty e g) [b, c, h, w] p
           = Inr [b, c, h, w]"
  using assms
  by (simp add: TransformerBlock_forward_def TransformerBlock_init_def LayerNorm_shape
      Attention_shape FeedForward_shape broadcast_same)

lemma HIM_shape:
  assumes "0 < nh" "nh dvd c"
  shows "HIM_forward (HIM_init c nh bi e ty) [b, c, h, w] [b, n, e * 4] = Inr [b, c, h, w]"
  using assms
  by (simp add: HIM_forward_def HIM_init_def shape_bchw_def to_3d_def to_4d_def
      LayerNorm_Without_Shape_shape Linear_3d chunk_2_last split_heads_3d_def
      transpose_last2_def matmul_def merge_heads_3d_def broadcast_same)

lemma run_blocks_replicate:
  assumes "blk x p = Inr x"
  shows "run_blocks (replicate n blk) x p = Inr x"
  using assms by (induction n) simp_all

lemma BasicLayer_shape_film:
  assumes "0 < nh" "nh dvd c" "0 < h" "0 < w" "0 < c" "0 < nat (py_int (real c * f))"
  shows "BasicLayer_forward (BasicLayer_init c nh f bi ty e n 1) [b, c, h, w] (Some [b, e * 4])
           = Inr [b, c, h, w]"
  using assms
  by (simp add: BasicLayer_forward_def BasicLayer_init_def run_blocks_replicate
      TransformerBlock_shape)

lemma BasicLayer_shape_him:
  assumes "0 < nh" "nh dvd c" "0 < h" "0 < w" "0 < c" "0 < nat (py_int (real c * f))" "1 < g"
  shows "BasicLayer_forward (BasicLayer_init c nh f bi ty e n g) [b, c, h, w] (Some [b, m, e * 4])
           = Inr [b, c, h, w]"
  using assms
  by (simp add: BasicLayer_forward_def BasicLayer_init_def run_blocks_replicate
      TransformerBlock_shape HIM_shape)

subsection \<open>The forward pass on shapes\<close>

lemma dvd_pos_nat: "(n::nat) dvd c \<Longrightarrow> 0 < c \<Longrightarrow> 0 < n"
  by (cases n) simp_all

lemma Transformer_forward_shape:
  assumes d: "dim' cfg = 48" and ic: "inp_channels cfg = 3"
    and h0: "heads cfg ! 0 dvd 96" and h1: "heads cfg ! 1 dvd 96"
    and h2: "heads cfg ! 2 dvd 192" and h3: "heads cfg ! 3 dvd 384"
    and ff': "1 \<le> 96 * ffn_expansion_factor cfg" and g4': "4 \<le> group' cfg"
    and hw: "0 < h" "0 < w"
    and mae: "mae [b, 3, h, w] = Inr [b, 50, 64]"
  shows "Transformer_forward shape_ops (Transformer_init cfg mae) [b, 3, h, w]
           (Some [b, nat (group' cfg * group' cfg), embed_dim cfg * 4])
         = (if dual_pixel_task_arg cfg then Inl ShapeError
            else broadcast [b, out_channels cfg, 224, 224] [b, 3, h, w])"
proof -
  define m where "m = Transformer_init cfg mae"
  define g where "g = group' cfg"
  define E where "E = embed_dim cfg * 4"
  define f where "f = ffn_expansion_factor cfg"
  note init = m_def Transformer_init_def Let_def g_def E_def f_def
  have ff: "1 \<le> 96 * f" and g4: "4 \<le> g"
    using ff' g4' by (simp_all add: g_def f_def)
  have g2: "1 < g div 2" and g1: "1 < g" using g4 by simp_all
  have hid: "0 < nat (py_int (real c * f))" if "96 \<le> c" for c
    using hidden_features_pos [OF ff that] .
  have p2: "down_1 m [b, nat (g * g), E] = Inr [b, nat (g * g div 4), E]"
    by (simp add: init Rearrange_swap_def Linear_3d)
  have p3: "and_then (down_2 m [b, nat (g * g div 4), E]) (t_flatten_1 shape_ops) = Inr [b, E]"
    by (simp add: init Rearrange_swap_def Linear_3d shape_ops_def flatten_1_def)
  have pe: "patch_embed m [b, 3, h, w] = Inr [b, 48, h, w]"
    using hw
    by (simp add: init d ic OverlapPatchEmbed_forward_def OverlapPatchEmbed_init_def Conv2d_3x3)
  have cr: "channel_reducer m [b, 48, h, w] = Inr [b, 3, h, w]"
    using hw by (simp add: init Conv2d_1x1)
  have me: "mae_encoder m [b, 3, h, w] = Inr [b, 50, 64]"
    by (simp add: init mae)
  have pm: "t_permute_0_2_1 shape_ops [b, 50, 64] = Inr [b, 64, 50]"
    by (simp add: shape_ops_def permute_0_2_1_def)
  have ll: "linear_layer m [b, 64, 50] = Inr [b, 64, 196]"
    by (simp add: init Linear_3d)
  have vw: "t_view_64_14_14 shape_ops [b, 64, 196] = Inr [b, 64, 14, 14]"
    by (simp add: shape_ops_def view_size0_def)
  have ce: "channel_expand_layer m [b, 64, 14, 14] = Inr [b, 384, 14, 14]"
    by (simp add: init Conv2d_1x1)
  have cl: "conv_layer m [b, 384, 14, 14] = Inr [b, 384, 14, 14]"
    by (simp add: init Conv2d_3x3)
  have ul: "upsample_layer m [b, 384, 14, 14] = Inr [b, 384, 28, 28]"
    by (simp add: init Upsample_bilinear_def)
  have la: "BasicLayer_forward (latent m) [b, 384, 28, 28] (Some [b, E]) = Inr [b, 384, 28, 28]"
    using BasicLayer_shape_film [of "heads cfg ! 3" 384 28 28 f "bias cfg" "LayerNorm_type cfg"
        "embed_dim cfg" "num_blocks cfg ! 3" b] h3 hid [of 384] dvd_pos_nat [OF h3]
    by (simp add: init d)
  have u3: "up4_3 m [b, 384, 28, 28] = Inr [b, 192, 56, 56]"
    using Upsample_shape [of 28 28 384 b] by (simp add: init d)
  have i3: "channel_increase_layer_level3 m [b, 192, 56, 56] = Inr [b, 384, 56, 56]"
    by (simp add: init Conv2d_1x1)
  have r3: "reduce_chan_level3 m [b, 384, 56, 56] = Inr [b, 192, 56, 56]"
    by (simp add: init d Conv2d_1x1)
  have d3: "BasicLayer_forward (decoder_level3 m) [b, 192, 56, 56] (Some [b, nat (g * g div 4), E])
              = Inr [b, 192, 56, 56]"
    using BasicLayer_shape_him [of "heads cfg ! 2" 192 56 56 f "g div 2" "bias cfg"
        "LayerNorm_type cfg" "embed_dim cfg" "num_blocks cfg ! 2" b "nat (g * g div 4)"]
      h2 hid [of 192] dvd_pos_nat [OF h2] g2
    by (simp add: init d)
  have u2: "up3_2 m [b, 192, 56, 56] = Inr [b, 96, 112, 112]"
    using Upsample_shape [of 56 56 192 b] by (simp add: init d)
  have i2: "channel_increase_layer_level2 m [b, 96, 112, 112] = Inr [b, 192, 112, 112]"
    by (simp add: init Conv2d_1x1)
  have r2: "reduce_chan_level2 m [b, 192, 112, 112] = Inr [b, 96, 112, 112]"
    by (simp add: init d Conv2d_1x1)
  have d2: "BasicLayer_forward (decoder_level2 m) [b, 96, 112, 112] (Some [b, nat (g * g div 4), E])
              = Inr [b, 96, 112, 112]"
    using BasicLayer_shape_him [of "heads cfg ! 1" 96 112 112 f "g div 2" "bias cfg"
        "LayerNorm_type cfg" "embed_dim cfg" "num_blocks cfg ! 1" b "nat (g * g div 4)"]
      h1 hid [of 96] dvd_pos_nat [OF h1] g2
    by (simp add: init d)
  have u1: "up2_1 m [b, 96, 112, 112] = Inr [b, 48, 224, 224]"
    using Upsample_shape [of 112 112 96 b] by (simp add: init d)
  have i1: "channel_increase_layer_level1 m [b, 48, 224, 224] = Inr [b, 96, 224, 224]"
    by (simp add: init Conv2d_1x1)
  have d1: "BasicLayer_forward (decoder_level1 m) [b, 96, 224, 224] (Some [b, nat (g * g), E])
              = Inr [b, 96, 224, 224]"
    using BasicLayer_shape_him [of "heads cfg ! 0" 96 224 224 f g "bias cfg"
        "LayerNorm_type cfg" "embed_dim cfg" "num_blocks cfg ! 0" b "nat (g * g)"]
      h0 hid [of 96] dvd_pos_nat [OF h0] g1
    by (simp add: init d)
  have rf: "BasicLayer_forward (refinement m) [b, 96, 224, 224] (Some [b, nat (g * g), E])
              = Inr [b, 96, 224, 224]"
    using BasicLayer_shape_him [of "heads cfg ! 0" 96 224 224 f g "bias cfg"
        "LayerNorm_type cfg" "embed_dim cfg" "num_refinement_blocks cfg" b "nat (g * g)"]
      h0 hid [of 96] dvd_pos_nat [OF h0] g1
    by (simp add: init d)
  have dpt: "dual_pixel_task m = dual_pixel_task_arg cfg"
    by (simp add: init)
  have sk: "and_then (get_attr (skip_conv m)) (\<lambda>f. f [b, 3, h, w]) = Inl ShapeError"
    if "dual_pixel_task_arg cfg"
    using that
    by (simp add: init d Conv2d_forward_def Conv2d_init_def conv_accepts_def)
  have ou: "output_conv m [b, 96, 224, 224] = Inr [b, out_channels cfg, 224, 224]"
    by (simp add: init d Conv2d_3x3)
  have ad: "t_add shape_ops = broadcast"
    by (simp add: shape_ops_def)
  have "Transformer_forward shape_ops m [b, 3, h, w] (Some [b, nat (g * g), E])
      = (if dual_pixel_task_arg cfg
         then and_then (and_then (get_attr (skip_conv m)) (\<lambda>f. f [b, 3, h, w])) (\<lambda>s.
              and_then (t_add shape_ops [b, 96, 224, 224] s) (\<lambda>out_dec_level1.
              output_conv m out_dec_level1))
         else broadcast [b, out_channels cfg, 224, 224] [b, 3, h, w])"
    unfolding Transformer_forward_def
    by (simp only: Let_def call_on_simps and_then_Inr p2 p3 pe cr me pm ll vw ce cl ul la u3 i3
        r3 d3 u2 i2 r2 d2 u1 i1 d1 rf dpt ou ad)
  then show ?thesis
    unfolding m_def [symmetric] g_def [symmetric] E_def [symmetric]
    by (simp add: sk)
qed

subsection \<open>The calls of a stage\<close>

lemma run_blocks_logged:
  "run_blocks (map logged_block (enumerate k blks)) (x, l) prior
     = and_then (run_blocks blks x prior)
         (\<lambda>y. Inr (y, l @ map (\<lambda>i. Block i prior) [k..<k + length blks]))"
proof (induction blks arbitrary: k x l)
  case Nil
  then show ?case by simp
next
  case (Cons blk blks)
  show ?case
  proof (cases "blk x prior")
    case (Inl e)
    then show ?thesis by (simp add: logged_block_def)
  next
    case (Inr y)
    have "[k..<k + length (blk # blks)] = k # [Suc k..<Suc k + length blks]"
      using upt_conv_Cons [of k "k + Suc (length blks)"] by simp
    with Inr Cons.IH [of "Suc k" y "l @ [Block k prior]"] show ?thesis
      by (simp add: logged_block_def)
  qed
qed

lemma BasicLayer_forward_logged:
  "BasicLayer_forward (logged m) (x, l) prior
     = and_then (BasicLayer_forward m x prior)
         (\<lambda>y. Inr (y, l @ (case prior of
                   Some p \<Rightarrow>
                     if 1 < layer_group m
                     then Fusion p # map (\<lambda>i. Block i None) [0..<length (blocks m)]
                     else map (\<lambda>i. Block i prior) [0..<length (blocks m)]
                 | None \<Rightarrow> map (\<lambda>i. Block i None) [0..<length (blocks m)])))"
proof (cases prior)
  case None
  then show ?thesis
    using run_blocks_logged [of 0 "blocks m" x l None]
    by (simp add: BasicLayer_forward_def logged_def)
next
  case (Some p)
  show ?thesis
  proof (cases "1 < layer_group m")
    case False
    with Some show ?thesis
      using run_blocks_logged [of 0 "blocks m" x l "Some p"]
      by (simp add: BasicLayer_forward_def logged_def)
  next
    case True
    show ?thesis
    proof (cases "him m")
      case None
      with True Some show ?thesis
        by (simp add: BasicLayer_forward_def logged_def)
    next
      case (Some h)
      show ?thesis
      proof (cases "h x p")
        case (Inl e)
        with True \<open>prior = Some p\<close> \<open>him m = Some h\<close> show ?thesis
          by (simp add: BasicLayer_forward_def logged_def logged_him_def)
      next
        case (Inr y)
        with True \<open>prior = Some p\<close> \<open>him m = Some h\<close> show ?thesis
          using run_blocks_logged [of 0 "blocks m" y "l @ [Fusion p]" None]
          by (simp add: BasicLayer_forward_def logged_def logged_him_def)
      qed
    qed
  qed
qed

subsection \<open>Which errors the layers raise\<close>


lemma shape_errors_only_Inl [simp]: "shape_errors_only (Inl e) \<longleftrightarrow> e = ShapeError"
  by (simp add: shape_errors_only_def)

























section \<open>Facts about tensor values\<close>

lemma with_dims_Inr [simp]: "with_dims (Inr s) f = Inr \<lparr>dims = s, entry = f\<rparr>"
  by (simp add: with_dims_def)

lemma v_map_simps [simp]:
  "dims (v_map f a) = dims a"
  "entry (v_map f a) i = f (entry a i)"
  by (simp_all add: v_map_def)

lemma valid_index_length: "valid_index s i \<Longrightarrow> length i = length s"
  by (simp add: valid_index_def list_all2_lengthD)

lemma valid_index_append:
  "length ip = length pre \<Longrightarrow>
     valid_index (pre @ [n]) (ip @ [j]) \<longleftrightarrow> valid_index pre ip \<and> j < n"
  by (simp add: valid_index_def list_all2_append)

lemma valid_index_snoc:
  assumes "valid_index (pre @ [n]) i"
  obtains ip j where "i = ip @ [j]" "length ip = length pre" "valid_index pre ip" "j < n"
proof -
  from assms have len: "length i = Suc (length pre)"
    by (simp add: valid_index_def list_all2_lengthD)
  then have "i \<noteq> []" by auto
  then have i: "i = butlast i @ [last i]" by simp
  have l: "length (butlast i) = length pre" using len by simp
  from assms i have "valid_index (pre @ [n]) (butlast i @ [last i])" by simp
  with l have "valid_index pre (butlast i)" "last i < n"
    by (simp_all add: valid_index_append)
  with i l that show thesis by blast
qed

lemma operand_index_same:
  assumes "valid_index s i"
  shows "operand_index s i = i"
proof -
  have "list_all2 (<) i s \<Longrightarrow> map2 (\<lambda>d k. if d = 1 then 0 else k) s i = i"
    by (induction i s rule: list_all2_induct) auto
  with assms show ?thesis
    by (simp add: operand_index_def valid_index_def list_all2_lengthD)
qed

lemma operand_index_keepdim:
  assumes "valid_index pre ip"
  shows "operand_index (pre @ [Suc 0]) (ip @ [j]) = ip @ [0]"
proof -
  have l: "length ip = length pre" using assms by (rule valid_index_length)
  have "map2 (\<lambda>d k. if d = 1 then 0 else k) pre ip = ip"
    using operand_index_same [OF assms] l by (simp add: operand_index_def)
  with l show ?thesis by (simp add: operand_index_def)
qed

lemma operand_index_weight:
  assumes "j < n"
  shows "operand_index [n] (ip @ [j]) = [j]"
  using assms by (auto simp: operand_index_def)

lemma last_axis_snoc:
  assumes "dims x = pre @ [n]"
  shows "last_axis x (ip @ [j]) = map (\<lambda>k. entry x (ip @ [k])) [0..<n]"
  using assms by (simp add: last_axis_def)

lemma reduce_last_keepdim_snoc: "reduce_last_keepdim (pre @ [n]) = pre @ [Suc 0]"
  by (simp add: reduce_last_keepdim_def)

lemma BiasFree_LayerNorm_value_entries:
  assumes x: "dims x = pre @ [n]" and w: "dims weight = [n]"
  shows "\<exists>y. BiasFree_LayerNorm_value weight x = Inr y \<and> dims y = dims x
           \<and> (\<forall>i. valid_index (dims x) i \<longrightarrow>
                 entry y i = entry x i / sqrt (pvar (last_axis x i) + 0.00001)
                               * entry weight [last i])"
proof -
  let ?y = "\<lparr>dims = pre @ [n],
      entry = (\<lambda>i. entry \<lparr>dims = pre @ [n],
                 entry = (\<lambda>i. entry x (operand_index (pre @ [n]) i)
                     / sqrt (pvar (last_axis x (operand_index (pre @ [Suc 0]) i)) + 0.00001))\<rparr>
               (operand_index (pre @ [n]) i) * entry weight (operand_index [n] i))\<rparr>"
  have run: "BiasFree_LayerNorm_value weight x = Inr ?y"
    by (simp add: BiasFree_LayerNorm_value_def Let_def v_binop_def v_map_def v_var_last_def
        x w reduce_last_keepdim_snoc broadcast_keepdim broadcast_weight)
  have "entry ?y i = entry x i / sqrt (pvar (last_axis x i) + 0.00001) * entry weight [last i]"
    if "valid_index (dims x) i" for i
  proof -
    from that x obtain ip j where i: "i = ip @ [j]" and v: "valid_index pre ip" and j: "j < n"
      by (auto elim: valid_index_snoc)
    have vi: "valid_index (pre @ [n]) (ip @ [j])"
      using v j by (simp add: valid_index_append valid_index_length)
    show ?thesis
      by (simp add: i operand_index_same [OF vi] operand_index_keepdim [OF v]
          operand_index_weight [OF j] last_axis_snoc [OF x])
  qed
  with run x show ?thesis by simp
qed

lemma WithBias_LayerNorm_value_entries:
  assumes x: "dims x = pre @ [n]" and w: "dims weight = [n]" and b: "dims bs = [n]"
  shows "\<exists>y. WithBias_LayerNorm_value weight bs x = Inr y \<and> dims y = dims x
           \<and> (\<forall>i. valid_index (dims x) i \<longrightarrow>
                 entry y i = (entry x i - mean (last_axis x i))
                               / sqrt (pvar (last_axis x i) + 0.00001)
                               * entry weight [last i] + entry bs [last i])"
proof -
  let ?d = "\<lparr>dims = pre @ [n],
      entry = (\<lambda>i. entry x (operand_index (pre @ [n]) i)
                 - mean (last_axis x (operand_index (pre @ [Suc 0]) i)))\<rparr>"
  let ?q = "\<lparr>dims = pre @ [n],
      entry = (\<lambda>i. entry ?d (operand_index (pre @ [n]) i)
                 / sqrt (pvar (last_axis x (operand_index (pre @ [Suc 0]) i)) + 0.00001))\<rparr>"
  let ?z = "\<lparr>dims = pre @ [n],
      entry = (\<lambda>i. entry ?q (operand_index (pre @ [n]) i) * entry weight (operand_index [n] i))\<rparr>"
  let ?y = "\<lparr>dims = pre @ [n],
      entry = (\<lambda>i. entry ?z (operand_index (pre @ [n]) i) + entry bs (operand_index [n] i))\<rparr>"
  have run: "WithBias_LayerNorm_value weight bs x = Inr ?y"
    by (simp add: WithBias_LayerNorm_value_def Let_def v_binop_def v_map_def v_var_last_def
        v_mean_last_def x w b reduce_last_keepdim_snoc broadcast_keepdim broadcast_weight)
  have "entry ?y i = (entry x i - mean (last_axis x i)) / sqrt (pvar (last_axis x i) + 0.00001)
                       * entry weight [last i] + entry bs [last i]"
    if "valid_index (dims x) i" for i
  proof -
    from that x obtain ip j where i: "i = ip @ [j]" and v: "valid_index pre ip" and j: "j < n"
      by (auto elim: valid_index_snoc)
    have vi: "valid_index (pre @ [n]) (ip @ [j])"
      using v j by (simp add: valid_index_append valid_index_length)
    show ?thesis
      by (simp add: i operand_index_same [OF vi] operand_index_keepdim [OF v]
          operand_index_weight [OF j] last_axis_snoc [OF x])
  qed
  with run x show ?thesis by simp
qed

subsection \<open>Rounding\<close>










lemma foldl_plus_sum_list: "foldl (\<lambda>a v. a + v) a xs = a + sum_list xs" for a :: real
  by (induction xs arbitrary: a) simp_all

lemma r_sum_exact: "r_sum (\<lambda>v. v) xs = sum_list xs"
  by (simp add: r_sum_def foldl_plus_sum_list)

lemma r_mean_exact: "r_mean (\<lambda>v. v) xs = mean xs"
  by (simp add: r_mean_def mean_def r_sum_exact)

lemma r_pvar_exact: "r_pvar (\<lambda>v. v) xs = pvar xs"
  by (simp add: r_pvar_def pvar_def r_sum_exact r_mean_exact)

lemma WithBias_LayerNorm_rounded_exact:
  "WithBias_LayerNorm_rounded (\<lambda>v. v) weight bs x = WithBias_LayerNorm_value weight bs x"
  by (simp add: WithBias_LayerNorm_rounded_def WithBias_LayerNorm_value_def r_mean_last_def
      r_var_last_def v_mean_last_def v_var_last_def r_mean_exact r_pvar_exact)







lemma v_to_3d_4d:
  assumes "dims x = [B, C, H, W]"
  shows "v_to_3d x = Inr \<lparr>dims = [B, H * W, C],
           entry = (\<lambda>i. entry x [i ! 0, i ! 2, (i ! Suc 0) div W, (i ! Suc 0) mod W])\<rparr>"
  by (simp add: v_to_3d_def to_3d_def assms)

lemma pixel_index:
  assumes "w < (W::nat)"
  shows "(h * W + w) div W = h" "(h * W + w) mod W = w"
  using assms by simp_all

lemma pixel_index_bound:
  assumes "h < (H::nat)" "w < W"
  shows "h * W + w < H * W"
proof -
  have "h * W + w < h * W + W" using assms(2) by simp
  also have "\<dots> = Suc h * W" by simp
  also have "\<dots> \<le> H * W" using assms(1) by (intro mult_le_mono1) simp
  finally show ?thesis .
qed

lemma LayerNorm_value_BiasFree_channel_axis:
  assumes x: "dims x = [B, C, H, W]" and w: "dims weight = [C]"
    and i: "b < B" "c < C" "h < H" "k < W"
  shows "\<exists>y. LayerNorm_value (BiasFree_LayerNorm_value weight) x = Inr y \<and> dims y = [B, C, H, W]
           \<and> entry y [b, c, h, k]
               = entry x [b, c, h, k]
                   / sqrt (pvar (map (\<lambda>j. entry x [b, j, h, k]) [0..<C]) + 0.00001)
                   * entry weight [c]"
proof -
  let ?x3 = "\<lparr>dims = [B, H * W, C],
      entry = (\<lambda>i. entry x [i ! 0, i ! 2, (i ! Suc 0) div W, (i ! Suc 0) mod W])\<rparr>"
  have d3: "dims ?x3 = [B, H * W] @ [C]" by simp
  from BiasFree_LayerNorm_value_entries [OF d3 w]
  obtain y3 where y3: "BiasFree_LayerNorm_value weight ?x3 = Inr y3" "dims y3 = [B, H * W, C]"
    and e3: "\<And>i. valid_index [B, H * W, C] i \<Longrightarrow>
        entry y3 i = entry ?x3 i / sqrt (pvar (last_axis ?x3 i) + 0.00001) * entry weight [last i]"
    by auto
  have v: "valid_index [B, H * W, C] [b, h * W + k, c]"
    using i pixel_index_bound [of h H k W] by (simp add: valid_index_def)
  have la: "last_axis ?x3 [b, h * W + k, c] = map (\<lambda>j. entry x [b, j, h, k]) [0..<C]"
    using i(4) by (simp add: last_axis_def pixel_index)
  have "LayerNorm_value (BiasFree_LayerNorm_value weight) x
      = Inr \<lparr>dims = [B, C, H, W],
          entry = (\<lambda>i. entry y3 [i ! 0, (i ! 2) * W + i ! 3, i ! Suc 0])\<rparr>"
    by (simp add: LayerNorm_value_def x shape_last2_def v_to_3d_4d [OF x] y3 v_to_4d_def
        to_4d_def)
  moreover have "entry y3 [b, h * W + k, c]
      = entry x [b, c, h, k] / sqrt (pvar (map (\<lambda>j. entry x [b, j, h, k]) [0..<C]) + 0.00001)
          * entry weight [c]"
    using e3 [OF v] i(4) by (simp add: la pixel_index)
  ultimately show ?thesis by simp
qed

lemma LayerNorm_value_WithBias_channel_axis:
  assumes x: "dims x = [B, C, H, W]" and w: "dims weight = [C]" and bs: "dims bs = [C]"
    and i: "b < B" "c < C" "h < H" "k < W"
  shows "\<exists>y. LayerNorm_value (WithBias_LayerNorm_value weight bs) x = Inr y
           \<and> dims y = [B, C, H, W]
           \<and> entry y [b, c, h, k]
               = (entry x [b, c, h, k] - mean (map (\<lambda>j. entry x [b, j, h, k]) [0..<C]))
                   / sqrt (pvar (map (\<lambda>j. entry x [b, j, h, k]) [0..<C]) + 0.00001)
                   * entry weight [c] + entry bs [c]"
proof -
  let ?x3 = "\<lparr>dims = [B, H * W, C],
      entry = (\<lambda>i. entry x [i ! 0, i ! 2, (i ! Suc 0) div W, (i ! Suc 0) mod W])\<rparr>"
  have d3: "dims ?x3 = [B, H * W] @ [C]" by simp
  from WithBias_LayerNorm_value_entries [OF d3 w bs]
  obtain y3 where y3: "WithBias_LayerNorm_value weight bs ?x3 = Inr y3" "dims y3 = [B, H * W, C]"
    and e3: "\<And>i. valid_index [B, H * W, C] i \<Longrightarrow>
        entry y3 i = (entry ?x3 i - mean (last_axis ?x3 i))
          / sqrt (pvar (last_axis ?x3 i) + 0.00001) * entry weight [last i] + entry bs [last i]"
    by auto
  have v: "valid_index [B, H * W, C] [b, h * W + k, c]"
    using i pixel_index_bound [of h H k W] by (simp add: valid_index_def)
  have la: "last_axis ?x3 [b, h * W + k, c] = map (\<lambda>j. entry x [b, j, h, k]) [0..<C]"
    using i(4) by (simp add: last_axis_def pixel_index)
  have "LayerNorm_value (WithBias_LayerNorm_value weight bs) x
      = Inr \<lparr>dims = [B, C, H, W],
          entry = (\<lambda>i. entry y3 [i ! 0, (i ! 2) * W + i ! 3, i ! Suc 0])\<rparr>"
    by (simp add: LayerNorm_value_def x shape_last2_def v_to_3d_4d [OF x] y3 v_to_4d_def
        to_4d_def)
  moreover have "entry y3 [b, h * W + k, c]
      = (entry x [b, c, h, k] - mean (map (\<lambda>j. entry x [b, j, h, k]) [0..<C]))
          / sqrt (pvar (map (\<lambda>j. entry x [b, j, h, k]) [0..<C]) + 0.00001)
          * entry weight [c] + entry bs [c]"
    using e3 [OF v] i(4) by (simp add: la pixel_index)
  ultimately show ?thesis by simp
qed

subsection \<open>A uniform shift of the entries\<close>





subsection \<open>Attention, entry by entry\<close>
















lemma unit_row_norm:
  assumes "0.000000000001 \<le> sqrt (\<Sum>m\<leftarrow>[0..<N]. (f m)\<^sup>2)"
  shows "(\<Sum>n\<leftarrow>[0..<N]. (unit_row f N n)\<^sup>2) = 1"
proof -
  define s where "s = (\<Sum>m\<leftarrow>[0..<N]. (f m)\<^sup>2)"
  have "(0::real) < 0.000000000001" by simp
  also have "\<dots> \<le> sqrt s" using assms by (simp only: s_def)
  finally have pos: "0 < sqrt s" .
  then have s: "0 < s" by simp
  have "max (sqrt s) 0.000000000001 = sqrt s"
    using assms by (simp add: s_def max_def)
  then have "(\<Sum>n\<leftarrow>[0..<N]. (unit_row f N n)\<^sup>2) = (\<Sum>n\<leftarrow>[0..<N]. (f n)\<^sup>2 / s)"
    using s by (simp add: unit_row_def s_def [symmetric] power_divide)
  also have "\<dots> = (\<Sum>n\<leftarrow>[0..<N]. (f n)\<^sup>2) / s"
    by (induction N) (simp_all add: add_divide_distrib)
  also have "\<dots> = 1" using s by (simp add: s_def)
  finally show ?thesis .
qed

lemma sum_list_exp_pos:
  assumes "xs \<noteq> []"
  shows "0 < (\<Sum>x\<leftarrow>xs. exp (g x :: real))"
  using assms
proof (induction xs)
  case Nil
  then show ?case by simp
next
  case (Cons a xs)
  have "0 \<le> (\<Sum>x\<leftarrow>xs. exp (g x))"
    by (rule sum_list_nonneg) auto
  then show ?case by (simp add: add_pos_nonneg)
qed

lemma mdta_weight_sum:
  assumes "0 < D"
  shows "(\<Sum>j\<leftarrow>[0..<D]. mdta_weight qkv temperature C D W N b k c j) = 1"
proof -
  define s where "s = (\<Sum>j\<leftarrow>[0..<D]. exp (mdta_logit qkv temperature C D W N b k c j))"
  have s: "0 < s"
    unfolding s_def using assms by (intro sum_list_exp_pos) simp
  have "(\<Sum>j\<leftarrow>[0..<n]. exp (mdta_logit qkv temperature C D W N b k c j) / s)
      = (\<Sum>j\<leftarrow>[0..<n]. exp (mdta_logit qkv temperature C D W N b k c j)) / s" for n
    by (induction n) (simp_all add: add_divide_distrib)
  from this [of D] show ?thesis
    using s by (simp add: mdta_weight_def s_def [symmetric])
qed

section \<open>Claims\<close>







text \<open>
  C2. With \<open>prior = None\<close> the first statement of \<open>Transformer.forward\<close>,
  \<^verbatim>\<open>prior_2 = self.down_1(prior_1)\<close>, applies a layer to \<^verbatim>\<open>None\<close>: whatever the model
  and the image, the call raises before any layer has run.
\<close>

theorem Transformer_forward_None_raises:
  "Transformer_forward T m inp_img None = Inl NoneTensorError"
  by (simp add: Transformer_forward_def)

text \<open>
  C3 (amended). Under the default configuration, for a \<open>(1, 3, 224, 224)\<close> image and a
  \<open>(1, N, 192)\<close> prior, \<open>Transformer.forward\<close> raises no shape error and returns a
  \<open>(1, 3, 224, 224)\<close> tensor when \<open>N = group\<^sup>2 = 16\<close>, provided the masked-autoencoder
  encoder returns \<open>(1, 50, 64)\<close> tokens; for every other \<open>N\<close> it raises a shape error in
  \<open>down_1\<close>, whose linear layer takes exactly 16 tokens.
\<close>

theorem default_forward_token_count:
  assumes "mae [1, 3, 224, 224] = Inr [1, 50, 64]"
  shows "Transformer_forward shape_ops (Transformer_init default_config mae) [1, 3, 224, 224]
           (Some [1, N, 192])
         = (if N = 16 then Inr [1, 3, 224, 224] else Inl ShapeError)"
proof (cases "N = 16")
  case True
  have "Transformer_forward shape_ops (Transformer_init default_config mae) [1, 3, 224, 224]
           (Some [1, nat (group' default_config * group' default_config),
                  embed_dim default_config * 4])
        = broadcast [1, out_channels default_config, 224, 224] [1, 3, 224, 224]"
    using assms Transformer_forward_shape [of default_config 224 224 mae 1]
    by (simp add: default_config_def)
  with True show ?thesis
    by (simp add: default_config_def broadcast_same)
next
  case False
  have "down_1 (Transformer_init default_config mae) [1, N, 192] = Inl ShapeError"
    using False
    by (simp add: Transformer_init_def default_config_def Rearrange_swap_def Linear_forward_def)
  with False show ?thesis
    by (simp add: Transformer_forward_def)
qed

theorem default_forward_token_count_witness:
  "mae_tokens [1, 3, 224, 224] = Inr [1, 50, 64]
   \<and> Transformer_forward shape_ops (Transformer_init default_config mae_tokens)
        [1, 3, 224, 224] (Some [1, 16, 192])
      = (if (16::nat) = 16 then Inr [1, 3, 224, 224] else Inl ShapeError)"
proof -
  have m: "mae_tokens [1, 3, 224, 224] = Inr [1, 50, 64]"
    by (simp add: mae_tokens_def)
  from m default_forward_token_count [of mae_tokens 16, OF m] show ?thesis
    by (intro conjI)
qed

text \<open>
  C3 as stated fails for a token count that is a multiple of 16 other than 16: a
  \<open>(1, 32, 192)\<close> prior is rejected.
\<close>

theorem default_forward_32_tokens_counterexample:
  "Transformer_forward shape_ops (Transformer_init default_config mae_tokens) [1, 3, 224, 224]
       (Some [1, 32, 192]) = Inl ShapeError"
proof -
  have "down_1 (Transformer_init default_config mae_tokens) [1, 32, 192] = Inl ShapeError"
    by (simp add: Transformer_init_def default_config_def Rearrange_swap_def Linear_forward_def)
  then show ?thesis
    by (simp add: Transformer_forward_def)
qed

text \<open>
  C4. \<open>Transformer.forward\<close> never calls the encoder-branch submodules
  \<open>encoder_level1\<close>, \<open>down1_2\<close>, \<open>encoder_level2\<close>, \<open>down2_3\<close>, \<open>encoder_level3\<close> and
  \<open>down3_4\<close>: two models that differ only in those submodules give the same result,
  returned tensor or raised error, on every image and prior.
\<close>

theorem encoder_branch_not_invoked:
  "Transformer_forward T
     (m\<lparr>encoder_level1 := e1, down1_2 := d12, encoder_level2 := e2, down2_3 := d23,
        encoder_level3 := e3, down3_4 := d34\<rparr>) inp_img prior
   = Transformer_forward T m inp_img prior"
  by (simp add: Transformer_forward_def cong: if_cong)

text \<open>
  C5. For every \<open>BasicLayer\<close> stage, with its submodules wrapped to record their calls:
  in a forward pass that returns, if the group number exceeds 1 and a prior \<open>p\<close> is
  supplied, the recorded calls are one fusion with \<open>p\<close>, first, followed by one call of
  each block in order, every one with \<^verbatim>\<open>prior=None\<close>; if the group number is 1, no fusion
  is recorded and every block is called with the prior as given. The wrapped pass
  returns the tensor that the plain pass returns.
\<close>

theorem BasicLayer_fusion_once:
  assumes "BasicLayer_forward (logged m) (x, []) prior = Inr (y, calls)"
  shows "BasicLayer_forward m x prior = Inr y
       \<and> (1 < layer_group m \<longrightarrow> (\<forall>p. prior = Some p \<longrightarrow>
             calls = Fusion p # map (\<lambda>i. Block i None) [0..<length (blocks m)]))
       \<and> (layer_group m = 1 \<longrightarrow> calls = map (\<lambda>i. Block i prior) [0..<length (blocks m)])"
  using assms unfolding BasicLayer_forward_logged [of m x "[]" prior]
  by (cases "BasicLayer_forward m x prior") (auto split: option.splits)

theorem BasicLayer_fusion_once_witness:
  "BasicLayer_forward (logged (BasicLayer_init 96 1 2.66 False ''WithBias'' 48 3 2))
       ([1, 96, 8, 8], []) (Some [1, 4, 192])
     = Inr ([1, 96, 8, 8], [Fusion [1, 4, 192], Block 0 None, Block 1 None, Block 2 None])
   \<and> BasicLayer_forward (BasicLayer_init 96 1 2.66 False ''WithBias'' 48 3 2)
       [1, 96, 8, 8] (Some [1, 4, 192]) = Inr [1, 96, 8, 8]
   \<and> BasicLayer_forward (logged (BasicLayer_init 96 1 2.66 False ''WithBias'' 48 3 1))
       ([1, 96, 8, 8], []) (Some [1, 192])
     = Inr ([1, 96, 8, 8],
            [Block 0 (Some [1, 192]), Block 1 (Some [1, 192]), Block 2 (Some [1, 192])])"
proof -
  let ?m2 = "BasicLayer_init 96 1 2.66 False ''WithBias'' 48 3 2"
  let ?m1 = "BasicLayer_init 96 1 2.66 False ''WithBias'' 48 3 1"
  have hid: "0 < nat (py_int (real 96 * 2.66))"
    by (simp add: py_int_def)
  have r2: "BasicLayer_forward ?m2 [1, 96, 8, 8] (Some [1, 4, 192]) = Inr [1, 96, 8, 8]"
    using BasicLayer_shape_him [of 1 96 8 8 "2.66" 2 False "''WithBias''" 48 3 1 4] hid
    by simp
  have r1: "BasicLayer_forward ?m1 [1, 96, 8, 8] (Some [1, 192]) = Inr [1, 96, 8, 8]"
    using BasicLayer_shape_film [of 1 96 8 8 "2.66" False "''WithBias''" 48 3 1] hid
    by simp
  have l2: "BasicLayer_forward (logged ?m2) ([1, 96, 8, 8], []) (Some [1, 4, 192])
     = Inr ([1, 96, 8, 8], [Fusion [1, 4, 192], Block 0 None, Block 1 None, Block 2 None])"
    unfolding BasicLayer_forward_logged r2
    by (simp add: BasicLayer_init_def upt_rec)
  have l1: "BasicLayer_forward (logged ?m1) ([1, 96, 8, 8], []) (Some [1, 192])
     = Inr ([1, 96, 8, 8],
            [Block 0 (Some [1, 192]), Block 1 (Some [1, 192]), Block 2 (Some [1, 192])])"
    unfolding BasicLayer_forward_logged r1
    by (simp add: BasicLayer_init_def upt_rec)
  from BasicLayer_fusion_once [OF l2] BasicLayer_fusion_once [OF l1] l2 l1
  show ?thesis by (intro conjI) simp_all
qed












end
